theory Spec2Isabelle
  imports Complex_Main "HOL-Library.AList"
begin

section \<open>Crash Street: the round engine\<close>

text \<open>
  The repository holds two implementations of the same crash round engine:
  \<^item> the Express/Socket.IO server (\<^verbatim>\<open>server.js\<close>): one global \<^verbatim>\<open>gameState\<close>, a
    \<^verbatim>\<open>Map\<close> of active bets keyed by socket id, and no balances at all;
  \<^item> the single-player \<^verbatim>\<open>GameServer\<close> class (the "Mock Game Server"): one user with a
    balance, one game, and a \<^verbatim>\<open>Map\<close> of bets keyed by game id.
  Both are embedded below, function by function. The first keeps the names of the
  source; the names of the second carry the prefix \<open>gs_\<close> where they would clash.

  Conventions of the embedding.
  \<^item> A JavaScript number is a \<^typ>\<open>real\<close>: multipliers, and also stakes, balances and
    profits, since no handler checks that a stake is a whole number. Arithmetic is exact:
    IEEE rounding, \<^verbatim>\<open>NaN\<close> and the infinities are not modelled, nor are payloads that
    are not numbers. \<^verbatim>\<open>Math.floor\<close> returns an \<^typ>\<open>int\<close>.
  \<^item> \<^verbatim>\<open>Date.now()\<close> and \<^verbatim>\<open>Math.random()\<close> are parameters of the functions reading them;
    the reads of the clock within one invocation of a handler return the same value.
  \<^item> Every handler takes the state and returns the new state with the list of events it
    emitted, in order. Timers (\<^verbatim>\<open>setInterval\<close>, \<^verbatim>\<open>setTimeout\<close>) are not state: the
    environment decides when \<open>tick\<close> and \<open>startGame\<close> run, so every schedule
    of the real timers is one of the runs considered here.
  \<^item> \<^verbatim>\<open>console.log\<close> and the \<^verbatim>\<open>localStorage\<close> persistence of the user are omitted.
\<close>

subsection \<open>The Socket.IO server: data\<close>

type_synonym socketId = string

record bet =
  amount :: real
  cashedOut :: bool
  profit :: real
  username :: string

record historyEntry =
  he_crashPoint :: real
  timestamp :: int

text \<open>\<^verbatim>\<open>gameId\<close> is \<^verbatim>\<open>Date.now().toString()\<close>, or \<^verbatim>\<open>null\<close> before the first round; the
  decimal string is represented by the timestamp it prints.\<close>

record gameState =
  running :: bool
  multiplier :: real
  crashPoint :: real
  startTime :: int
  crashed :: bool
  gameId :: "int option"
  history :: "historyEntry list"

text \<open>The two globals of the module. A JavaScript \<^verbatim>\<open>Map\<close> iterates in insertion
  order, so \<^verbatim>\<open>activeBets\<close> is an association list: \<^verbatim>\<open>set\<close> is \<^const>\<open>AList.update\<close>
  (in place for a known key, appended otherwise), \<^verbatim>\<open>get\<close> is \<^const>\<open>map_of\<close>,
  \<^verbatim>\<open>delete\<close> is \<^const>\<open>AList.delete\<close>.\<close>

record server =
  gameState :: gameState
  activeBets :: "(socketId \<times> bet) list"

record result =
  socketId :: socketId
  res_username :: string
  res_amount :: real
  result :: string
  res_profit :: real

datatype emitted =
    ERROR string
  | BET_CONFIRMED real
  | CASHOUT_SUCCESS real int real
  | GAME_START "int option"
  | TICK real real
  | GAME_CRASHED real "result list"

definition CONFIG_tickRate :: real where
  "CONFIG_tickRate = 30"

definition CONFIG_growthRate :: real where
  "CONFIG_growthRate = 0.15"

definition init_gameState :: gameState where
  "init_gameState =
     \<lparr>running = False, multiplier = 1.00, crashPoint = 0, startTime = 0,
      crashed = False, gameId = None, history = []\<rparr>"

definition init_server :: server where
  "init_server = \<lparr>gameState = init_gameState, activeBets = []\<rparr>"

subsection \<open>The Socket.IO server: game functions\<close>

text \<open>The three lines of \<^verbatim>\<open>startGame\<close> that compute the crash point from the draw
  \<open>r\<close>; both implementations have them word for word.\<close>

definition drawCrashPoint :: "real \<Rightarrow> real" where
  "drawCrashPoint r =
     (let cp = 0.99 / (1 - r);
          cp = (if cp < 1.00 then 1.00 else cp)
      in min cp 1000)"

definition addToHistory :: "int \<Rightarrow> real \<Rightarrow> historyEntry list \<Rightarrow> historyEntry list" where
  "addToHistory now cp h =
     (let h = \<lparr>he_crashPoint = cp, timestamp = now\<rparr> # h
      in if length h > 50 then butlast h else h)"

definition startGame :: "int \<Rightarrow> real \<Rightarrow> server \<Rightarrow> server \<times> emitted list" where
  "startGame now r s =
     (let g = (gameState s)\<lparr>running := True, multiplier := 1.00, crashed := False,
                gameId := Some now, startTime := now\<rparr>;
          g = g\<lparr>crashPoint := drawCrashPoint r\<rparr>
      in (\<lparr>gameState = g, activeBets = []\<rparr>, [GAME_START (gameId g)]))"

definition settle :: "socketId \<times> bet \<Rightarrow> result" where
  "settle p =
     (case p of (sid, b) \<Rightarrow>
        if \<not> cashedOut b
        then \<lparr>socketId = sid, res_username = username b, res_amount = amount b,
              result = ''lost'', res_profit = - amount b\<rparr>
        else \<lparr>socketId = sid, res_username = username b, res_amount = amount b,
              result = ''won'', res_profit = profit b\<rparr>)"

definition crash :: "int \<Rightarrow> server \<Rightarrow> server \<times> emitted list" where
  "crash now s =
     (let g = (gameState s)\<lparr>running := False, crashed := True\<rparr>;
          results = map settle (activeBets s);
          g = g\<lparr>history := addToHistory now (crashPoint g) (history g)\<rparr>
      in (s\<lparr>gameState := g\<rparr>, [GAME_CRASHED (crashPoint g) results]))"

definition tick :: "int \<Rightarrow> server \<Rightarrow> server \<times> emitted list" where
  "tick now s =
     (if \<not> running (gameState s) then (s, [])
      else
        let g = gameState s;
            elapsed = real_of_int (now - startTime g) / 1000;
            g = g\<lparr>multiplier :=
                   multiplier g + multiplier g * CONFIG_growthRate * (CONFIG_tickRate / 1000)\<rparr>;
            s = s\<lparr>gameState := g\<rparr>
        in if multiplier g \<ge> crashPoint g then crash now s
           else (s, [TICK (multiplier g) elapsed]))"

subsection \<open>The Socket.IO server: socket handlers\<close>

definition on_START_GAME :: "int \<Rightarrow> real \<Rightarrow> server \<Rightarrow> server \<times> emitted list" where
  "on_START_GAME now r s =
     (if \<not> running (gameState s) then startGame now r s else (s, []))"

definition on_PLACE_BET :: "socketId \<Rightarrow> real \<Rightarrow> string \<Rightarrow> server \<Rightarrow> server \<times> emitted list" where
  "on_PLACE_BET sid amt uname s =
     (if \<not> running (gameState s) \<or> crashed (gameState s)
        then (s, [ERROR ''Cannot place bet at this time''])
      else if map_of (activeBets s) sid \<noteq> None
        then (s, [ERROR ''You already have an active bet''])
      else if amt = 0 \<or> amt < 10
        then (s, [ERROR ''Minimum bet is 10''])
      else
        (s\<lparr>activeBets := AList.update sid
              \<lparr>amount = amt, cashedOut = False, profit = 0,
               username = (if uname = [] then ''Player'' else uname)\<rparr> (activeBets s)\<rparr>,
         [BET_CONFIRMED amt]))"

definition on_CASH_OUT :: "socketId \<Rightarrow> server \<Rightarrow> server \<times> emitted list" where
  "on_CASH_OUT sid s =
     (if \<not> running (gameState s) \<or> crashed (gameState s)
        then (s, [ERROR ''Game not active''])
      else case map_of (activeBets s) sid of
        None \<Rightarrow> (s, [ERROR ''No active bet to cash out''])
      | Some b \<Rightarrow>
          if cashedOut b then (s, [ERROR ''No active bet to cash out''])
          else
            let winAmount = \<lfloor>amount b * multiplier (gameState s)\<rfloor>;
                profit = real_of_int winAmount - amount b;
                b = b\<lparr>cashedOut := True, profit := profit\<rparr>
            in (s\<lparr>activeBets := AList.update sid b (activeBets s)\<rparr>,
                [CASHOUT_SUCCESS (multiplier (gameState s)) winAmount profit]))"

definition on_disconnect :: "socketId \<Rightarrow> server \<Rightarrow> server \<times> emitted list" where
  "on_disconnect sid s = (s\<lparr>activeBets := AList.delete sid (activeBets s)\<rparr>, [])"

subsection \<open>The Socket.IO server: runs\<close>

text \<open>What can happen to the server: a socket event of some client, a tick of the
  interval timer, or the timeout that \<^verbatim>\<open>crash\<close> and \<^verbatim>\<open>server.listen\<close> arm and that calls
  \<^verbatim>\<open>startGame\<close> unconditionally.\<close>

datatype event =
    START_GAME int real
  | PLACE_BET socketId real string
  | CASH_OUT socketId
  | Disconnect socketId
  | Tick int
  | StartTimer int real

fun step :: "event \<Rightarrow> server \<Rightarrow> server \<times> emitted list" where
  "step (START_GAME now r) s = on_START_GAME now r s"
| "step (PLACE_BET sid amt uname) s = on_PLACE_BET sid amt uname s"
| "step (CASH_OUT sid) s = on_CASH_OUT sid s"
| "step (Disconnect sid) s = on_disconnect sid s"
| "step (Tick now) s = tick now s"
| "step (StartTimer now r) s = startGame now r s"


definition run_from :: "server \<Rightarrow> event list \<Rightarrow> server" where
  "run_from s es = foldl (\<lambda>s e. fst (step e s)) s es"

definition run :: "event list \<Rightarrow> server" where
  "run es = run_from init_server es"

text \<open>Everything emitted along a run, in order.\<close>

fun trace :: "server \<Rightarrow> event list \<Rightarrow> emitted list" where
  "trace s [] = []"
| "trace s (e # es) = snd (step e s) @ trace (fst (step e s)) es"

text \<open>\<open>n\<close> consecutive ticks, reading the clock values \<open>ts\<close>.\<close>

definition ticks :: "int list \<Rightarrow> server \<Rightarrow> server" where
  "ticks ts s = foldl (\<lambda>s now. fst (tick now s)) s ts"





definition pending :: "server \<Rightarrow> socketId \<Rightarrow> nat" where
  "pending s sid =
     (if running (gameState s) \<and> map_of (activeBets s) sid \<noteq> None then 1 else 0)"

fun crash_point_of :: "emitted \<Rightarrow> real list" where
  "crash_point_of (GAME_CRASHED cp rs) = [cp]"
| "crash_point_of e = []"

definition crash_points :: "emitted list \<Rightarrow> real list" where
  "crash_points out = concat (map crash_point_of out)"

text \<open>The update of the multiplier that one tick of a running round applies
  (\<^verbatim>\<open>gameState.multiplier += gameState.multiplier * CONFIG.growthRate * (CONFIG.tickRate / 1000)\<close>);
  \<open>(grow ^^ n) 1\<close> is the multiplier after \<open>n\<close> such updates from 1.00.\<close>

definition grow :: "real \<Rightarrow> real" where
  "grow m = m + m * CONFIG_growthRate * (CONFIG_tickRate / 1000)"

text \<open>What holds of the server after every run: the multiplier never drops below 1.00,
  no socket has two bets, every recorded stake is at least the minimum, and the history
  holds at most 50 entries.\<close>

definition server_inv :: "server \<Rightarrow> bool" where
  "server_inv s \<longleftrightarrow>
     1 \<le> multiplier (gameState s) \<and> distinct (map fst (activeBets s)) \<and>
     list_all (\<lambda>p. 10 \<le> amount (snd p)) (activeBets s) \<and>
     length (history (gameState s)) \<le> 50"

subsection \<open>The single-player GameServer: data\<close>

text \<open>\<^verbatim>\<open>referralCode\<close> is \<^verbatim>\<open>'USER-'\<close> followed by a four-digit number; the record keeps
  the number.\<close>

record user =
  u_username :: string
  balance :: real
  referralCode :: int
  totalProfit :: real

record gs_bet =
  gs_amount :: real
  gs_cashedOut :: bool
  gs_profit :: real

record gs_historyEntry =
  mult :: real
  h_profit :: real
  status :: string

text \<open>\<^verbatim>\<open>game.crashed\<close> does not exist before the first \<^verbatim>\<open>startGame\<close>; it is read only
  as a truth value, where \<^verbatim>\<open>undefined\<close> counts as false.\<close>

record game =
  gs_id :: "int option"
  gs_running :: bool
  gs_multiplier :: real
  gs_crashPoint :: real
  gs_startTime :: int
  gs_history :: "gs_historyEntry list"
  gs_crashed :: bool

record GameServer =
  user :: "user option"
  game :: game
  bets :: "(int option \<times> gs_bet) list"

datatype ret = RetUndefined | RetSuccess | RetRedeemed real | RetError string | TypeError

datatype gs_emitted =
    USER_UPDATE "user option"
  | GS_GAME_START "int option" string
  | BET_PLACED real
  | GS_CASHOUT_SUCCESS real int real
  | GS_TICK real real
  | BET_LOST real
  | HISTORY_UPDATE "gs_historyEntry list"
  | GS_GAME_CRASHED real

definition config_tickRate :: real where
  "config_tickRate = 30"

text \<open>The constructor: the user is whatever \<^verbatim>\<open>_loadUser\<close> found in storage.\<close>

definition gs_init :: "user option \<Rightarrow> GameServer" where
  "gs_init u =
     \<lparr>user = u,
      game = \<lparr>gs_id = None, gs_running = False, gs_multiplier = 1.00, gs_crashPoint = 0,
              gs_startTime = 0, gs_history = [], gs_crashed = False\<rparr>,
      bets = []\<rparr>"

subsection \<open>The single-player GameServer: methods\<close>

definition gs_login :: "string \<Rightarrow> real \<Rightarrow> GameServer \<Rightarrow> GameServer \<times> ret \<times> gs_emitted list" where
  "gs_login uname rnd s =
     (if uname = [] then (s, RetError ''Username required'', [])
      else
        let u = \<lparr>u_username = uname, balance = 5000,
                 referralCode = \<lfloor>1000 + rnd * 9000\<rfloor>, totalProfit = 0\<rparr>
        in (s\<lparr>user := Some u\<rparr>, RetSuccess, [USER_UPDATE (Some u)]))"

definition gs_logout :: "GameServer \<Rightarrow> GameServer \<times> ret \<times> gs_emitted list" where
  "gs_logout s = (s\<lparr>user := None\<rparr>, RetUndefined, [USER_UPDATE None])"

definition gs_redeem :: "real \<Rightarrow> GameServer \<Rightarrow> GameServer \<times> ret \<times> gs_emitted list" where
  "gs_redeem amt s =
     (case user s of
        None \<Rightarrow> (s, RetError ''Not logged in'', [])
      | Some u \<Rightarrow>
          if amt > balance u then (s, RetError ''Insufficient funds'', [])
          else
            let u = u\<lparr>balance := balance u - amt\<rparr>
            in (s\<lparr>user := Some u\<rparr>, RetRedeemed amt, [USER_UPDATE (Some u)]))"

definition gs_startGame ::
  "int \<Rightarrow> real \<Rightarrow> string \<Rightarrow> GameServer \<Rightarrow> GameServer \<times> ret \<times> gs_emitted list" where
  "gs_startGame now r modeId s =
     (if gs_running (game s) then (s, RetUndefined, [])
      else
        let g = (game s)\<lparr>gs_running := True, gs_multiplier := 1.00, gs_id := Some now,
                   gs_startTime := now, gs_crashed := False\<rparr>;
            g = g\<lparr>gs_crashPoint := drawCrashPoint r\<rparr>
        in (s\<lparr>game := g\<rparr>, RetUndefined, [GS_GAME_START (gs_id g) modeId]))"

definition gs_placeBet :: "real \<Rightarrow> GameServer \<Rightarrow> GameServer \<times> ret \<times> gs_emitted list" where
  "gs_placeBet amt s =
     (case user s of
        None \<Rightarrow> (s, RetError ''Login required'', [])
      | Some u \<Rightarrow>
          if amt > balance u then (s, RetError ''Insufficient funds'', [])
          else if amt < 10 then (s, RetError ''Min bet 10'', [])
          else
            let u = u\<lparr>balance := balance u - amt\<rparr>;
                s = s\<lparr>user := Some u,
                      bets := AList.update (gs_id (game s))
                        \<lparr>gs_amount = amt, gs_cashedOut = False, gs_profit = 0\<rparr> (bets s)\<rparr>
            in (s, RetSuccess, [USER_UPDATE (Some u), BET_PLACED amt]))"

text \<open>With no user logged in, \<^verbatim>\<open>this._state.user.balance\<close> throws a \<^verbatim>\<open>TypeError\<close>
  after the bet has been marked.\<close>

definition gs_cashOut :: "GameServer \<Rightarrow> GameServer \<times> ret \<times> gs_emitted list" where
  "gs_cashOut s =
     (if \<not> gs_running (game s) then (s, RetError ''Game not running'', [])
      else case map_of (bets s) (gs_id (game s)) of
        None \<Rightarrow> (s, RetError ''No active bet'', [])
      | Some b \<Rightarrow>
          if gs_cashedOut b then (s, RetError ''No active bet'', [])
          else
            let currentMult = gs_multiplier (game s);
                winAmount = \<lfloor>gs_amount b * currentMult\<rfloor>;
                profit = real_of_int winAmount - gs_amount b;
                b = b\<lparr>gs_cashedOut := True, gs_profit := profit\<rparr>;
                s = s\<lparr>bets := AList.update (gs_id (game s)) b (bets s)\<rparr>
            in case user s of
                 None \<Rightarrow> (s, TypeError, [])
               | Some u \<Rightarrow>
                   let u = u\<lparr>balance := balance u + real_of_int winAmount,
                             totalProfit := totalProfit u + profit\<rparr>
                   in (s\<lparr>user := Some u\<rparr>, RetSuccess,
                       [GS_CASHOUT_SUCCESS currentMult winAmount profit, USER_UPDATE (Some u)]))"

definition gs_addToHistory ::
  "real \<Rightarrow> real \<Rightarrow> string \<Rightarrow> GameServer \<Rightarrow> GameServer \<times> gs_emitted list" where
  "gs_addToHistory m p st s =
     (let h = \<lparr>mult = m, h_profit = p, status = st\<rparr> # gs_history (game s);
          h = (if length h > 50 then butlast h else h)
      in (s\<lparr>game := (game s)\<lparr>gs_history := h\<rparr>\<rparr>, [HISTORY_UPDATE h]))"

text \<open>With a lost bet and no user logged in, \<^verbatim>\<open>this._state.user.totalProfit\<close> throws
  after the flags have been set.\<close>

definition gs_crash :: "GameServer \<Rightarrow> GameServer \<times> ret \<times> gs_emitted list" where
  "gs_crash s =
     (let s = s\<lparr>game := (game s)\<lparr>gs_running := False, gs_crashed := True\<rparr>\<rparr>;
          finalCrash = gs_crashPoint (game s)
      in case map_of (bets s) (gs_id (game s)) of
           None \<Rightarrow>
             (case gs_addToHistory finalCrash 0 ''none'' s of (s, es) \<Rightarrow>
                (s, RetUndefined, es @ [GS_GAME_CRASHED finalCrash, USER_UPDATE (user s)]))
         | Some b \<Rightarrow>
             if \<not> gs_cashedOut b then
               (case user s of
                  None \<Rightarrow> (s, TypeError, [])
                | Some u \<Rightarrow>
                    let s = s\<lparr>user := Some (u\<lparr>totalProfit := totalProfit u - gs_amount b\<rparr>)\<rparr>
                    in case gs_addToHistory finalCrash (- gs_amount b) ''lost'' s of (s, es) \<Rightarrow>
                         (s, RetUndefined,
                          BET_LOST (gs_amount b) # es @
                          [GS_GAME_CRASHED finalCrash, USER_UPDATE (user s)]))
             else
               (case gs_addToHistory finalCrash (gs_profit b) ''won'' s of (s, es) \<Rightarrow>
                  (s, RetUndefined, es @ [GS_GAME_CRASHED finalCrash, USER_UPDATE (user s)])))"

definition gs_gameLoop :: "int \<Rightarrow> GameServer \<Rightarrow> GameServer \<times> ret \<times> gs_emitted list" where
  "gs_gameLoop now s =
     (if \<not> gs_running (game s) then (s, RetUndefined, [])
      else
        let g = game s;
            elapsed = real_of_int (now - gs_startTime g) / 1000;
            growthRate = 0.15;
            g = g\<lparr>gs_multiplier :=
                   gs_multiplier g + gs_multiplier g * growthRate * (config_tickRate / 1000)\<rparr>;
            s = s\<lparr>game := g\<rparr>
        in if gs_multiplier g \<ge> gs_crashPoint g then gs_crash s
           else (s, RetUndefined, [GS_TICK (gs_multiplier g) elapsed]))"

subsection \<open>The single-player GameServer: runs\<close>

datatype gs_call =
    Login string real
  | Logout
  | Redeem real
  | StartGame int real string
  | PlaceBet real
  | CashOut
  | GameLoop int

fun gs_step :: "gs_call \<Rightarrow> GameServer \<Rightarrow> GameServer \<times> ret \<times> gs_emitted list" where
  "gs_step (Login uname rnd) s = gs_login uname rnd s"
| "gs_step Logout s = gs_logout s"
| "gs_step (Redeem amt) s = gs_redeem amt s"
| "gs_step (StartGame now r modeId) s = gs_startGame now r modeId s"
| "gs_step (PlaceBet amt) s = gs_placeBet amt s"
| "gs_step CashOut s = gs_cashOut s"
| "gs_step (GameLoop now) s = gs_gameLoop now s"

definition gs_run_from :: "GameServer \<Rightarrow> gs_call list \<Rightarrow> GameServer" where
  "gs_run_from s cs = foldl (\<lambda>s c. fst (gs_step c s)) s cs"

definition gs_run :: "user option \<Rightarrow> gs_call list \<Rightarrow> GameServer" where
  "gs_run u cs = gs_run_from (gs_init u) cs"


definition gs_ticks :: "int list \<Rightarrow> GameServer \<Rightarrow> GameServer" where
  "gs_ticks ts s = foldl (\<lambda>s now. fst (gs_gameLoop now s)) s ts"











text \<open>The update of the multiplier in \<^verbatim>\<open>_gameLoop\<close>, with its local \<^verbatim>\<open>growthRate\<close> 0.15.\<close>

definition gs_grow :: "real \<Rightarrow> real" where
  "gs_grow m = m + m * 0.15 * (config_tickRate / 1000)"

text \<open>The part of either state that a tick reads and writes: whether the round is running,
  whether it has crashed, the multiplier and the crash point. \<open>tick_view\<close> is what one tick
  does to it; \<open>view_tick\<close> and \<open>gs_view_gameLoop\<close> below prove that of \<^verbatim>\<open>tick\<close> and of
  \<^verbatim>\<open>_gameLoop\<close>, so that the growth of the multiplier is proved once for both.\<close>

type_synonym phase = "bool \<times> bool \<times> real \<times> real"

definition view :: "server \<Rightarrow> phase" where
  "view s = (running (gameState s), crashed (gameState s), multiplier (gameState s),
             crashPoint (gameState s))"

definition gs_view :: "GameServer \<Rightarrow> phase" where
  "gs_view t = (gs_running (game t), gs_crashed (game t), gs_multiplier (game t),
                gs_crashPoint (game t))"

fun tick_view :: "phase \<Rightarrow> phase" where
  "tick_view (r, c, m, cp) =
     (if \<not> r then (r, c, m, cp)
      else if cp \<le> m * 1.0045 then (False, True, m * 1.0045, cp)
      else (True, c, m * 1.0045, cp))"

text \<open>The same for the GameServer.\<close>

definition gs_inv :: "GameServer \<Rightarrow> bool" where
  "gs_inv s \<longleftrightarrow>
     1 \<le> gs_multiplier (game s) \<and>
     list_all (\<lambda>p. 10 \<le> gs_amount (snd p)) (bets s) \<and>
     length (gs_history (game s)) \<le> 50"


section \<open>Properties\<close>

subsection \<open>The crash point\<close>

lemma drawCrashPoint_eq: "drawCrashPoint r = min (max (0.99 / (1 - r)) 1) 1000"
  by (simp add: drawCrashPoint_def Let_def max_def)

lemma drawCrashPoint_bounds: "1 \<le> drawCrashPoint r \<and> drawCrashPoint r \<le> 1000"
  by (simp add: drawCrashPoint_def Let_def)

lemma startGame_crashPoint: "crashPoint (gameState (fst (startGame now r s))) = drawCrashPoint r"
  by (simp add: startGame_def Let_def)

lemma gs_startGame_crashPoint:
  "\<not> gs_running (game t) \<Longrightarrow>
   gs_crashPoint (game (fst (gs_startGame now r modeId t))) = drawCrashPoint r"
  by (simp add: gs_startGame_def Let_def)

text \<open>
  C2. For every draw \<open>r\<close> in \<open>[0, 1)\<close> the crash target stored by \<open>startGame\<close> is
  \<open>0.99 / (1 - r)\<close> clamped below at 1.00 and above at 1000, hence between 1.00 and
  1000. The same holds of the GameServer's \<open>startGame\<close> whenever it starts a round
  (it returns at once while a round is running).
\<close>

theorem C2_crash_target_clamped:
  assumes "0 \<le> r" and "r < 1"
  shows "crashPoint (gameState (fst (startGame now r s))) = min (max (0.99 / (1 - r)) 1) 1000
       \<and> 1 \<le> crashPoint (gameState (fst (startGame now r s)))
       \<and> crashPoint (gameState (fst (startGame now r s))) \<le> 1000
       \<and> (\<not> gs_running (game t) \<longrightarrow>
            gs_crashPoint (game (fst (gs_startGame now r modeId t)))
              = min (max (0.99 / (1 - r)) 1) 1000
          \<and> 1 \<le> gs_crashPoint (game (fst (gs_startGame now r modeId t)))
          \<and> gs_crashPoint (game (fst (gs_startGame now r modeId t))) \<le> 1000)"
  using drawCrashPoint_bounds [of r]
  by (simp add: startGame_crashPoint gs_startGame_crashPoint drawCrashPoint_eq)

theorem C2_crash_target_clamped_witness:
  "crashPoint (gameState (fst (startGame 0 0.5 init_server))) = 1.98
   \<and> gs_crashPoint (game (fst (gs_startGame 0 0.5 ''normal'' (gs_init None)))) = 1.98
   \<and> crashPoint (gameState (fst (startGame 0 0 init_server))) = 1
   \<and> crashPoint (gameState (fst (startGame 0 0.9999 init_server))) = 1000"
  using C2_crash_target_clamped [of "0.5" 0 init_server "gs_init None" "''normal''"]
        C2_crash_target_clamped [of 0 0 init_server "gs_init None" "''normal''"]
        C2_crash_target_clamped [of "0.9999" 0 init_server "gs_init None" "''normal''"]
  by (simp add: gs_init_def)

subsection \<open>Invariants of the Socket.IO server\<close>

lemma addToHistory_take:
  "length h \<le> 50 \<Longrightarrow>
   addToHistory now cp h = take 50 (\<lparr>he_crashPoint = cp, timestamp = now\<rparr> # h)"
  by (cases "length h = 50") (simp_all add: addToHistory_def Let_def butlast_conv_take)

lemma addToHistory_length: "length h \<le> 50 \<Longrightarrow> length (addToHistory now cp h) \<le> 50"
  by (simp add: addToHistory_take)

lemma list_all_update:
  "list_all P al \<Longrightarrow> P (k, v) \<Longrightarrow> list_all P (AList.update k v al)"
  by (induction al) (auto simp: AList.update.simps)

lemma list_all_delete: "list_all P al \<Longrightarrow> list_all P (AList.delete k al)"
  by (induction al) (auto simp: AList.delete_eq)

lemma list_all_map_of:
  "list_all P al \<Longrightarrow> map_of al k = Some v \<Longrightarrow> P (k, v)"
  by (auto simp: list_all_iff dest: map_of_SomeD)

lemma tick_idle: "\<not> running (gameState s) \<Longrightarrow> tick now s = (s, [])"
  by (simp add: tick_def)

lemma growth_step: "(m::real) + m * CONFIG_growthRate * (CONFIG_tickRate / 1000) = m * 1.0045"
  by (simp add: CONFIG_growthRate_def CONFIG_tickRate_def)

lemma tick_running:
  "running (gameState s) \<Longrightarrow>
   tick now s =
     (if crashPoint (gameState s) \<le> multiplier (gameState s) * 1.0045
      then crash now (s\<lparr>gameState := (gameState s)\<lparr>multiplier := multiplier (gameState s) * 1.0045\<rparr>\<rparr>)
      else (s\<lparr>gameState := (gameState s)\<lparr>multiplier := multiplier (gameState s) * 1.0045\<rparr>\<rparr>,
            [TICK (multiplier (gameState s) * 1.0045) (real_of_int (now - startTime (gameState s)) / 1000)]))"
  unfolding tick_def Let_def growth_step by simp

lemma crash_fields:
  "gameState (fst (crash now s)) =
     (gameState s)\<lparr>running := False, crashed := True,
        history := addToHistory now (crashPoint (gameState s)) (history (gameState s))\<rparr>"
  "activeBets (fst (crash now s)) = activeBets s"
  "snd (crash now s) = [GAME_CRASHED (crashPoint (gameState s)) (map settle (activeBets s))]"
  by (simp_all add: crash_def Let_def)

lemma server_inv_init: "server_inv init_server"
  by (simp add: server_inv_def init_server_def init_gameState_def)

lemma server_inv_startGame: "server_inv s \<Longrightarrow> server_inv (fst (startGame now r s))"
  by (simp add: server_inv_def startGame_def Let_def)

lemma server_inv_crash: "server_inv s \<Longrightarrow> server_inv (fst (crash now s))"
  by (simp add: server_inv_def crash_fields addToHistory_length)

lemma server_inv_tick: "server_inv s \<Longrightarrow> server_inv (fst (tick now s))"
proof (cases "running (gameState s)")
  case False
  assume "server_inv s"
  with False show ?thesis by (simp add: tick_idle)
next
  case True
  assume inv: "server_inv s"
  let ?m = "multiplier (gameState s) * 1.0045"
  let ?s = "s\<lparr>gameState := (gameState s)\<lparr>multiplier := ?m\<rparr>\<rparr>"
  have m: "1 \<le> ?m" using inv by (simp add: server_inv_def)
  have "server_inv ?s" using inv m by (simp add: server_inv_def)
  then show ?thesis
    using True server_inv_crash [of ?s now]
    by (simp add: tick_running)
qed

lemma server_inv_PLACE_BET: "server_inv s \<Longrightarrow> server_inv (fst (on_PLACE_BET sid amt uname s))"
  by (simp add: server_inv_def on_PLACE_BET_def distinct_update list_all_update)

lemma server_inv_CASH_OUT: "server_inv s \<Longrightarrow> server_inv (fst (on_CASH_OUT sid s))"
  by (auto simp: server_inv_def on_CASH_OUT_def Let_def distinct_update
           intro!: list_all_update dest: list_all_map_of split: option.splits)

lemma server_inv_disconnect: "server_inv s \<Longrightarrow> server_inv (fst (on_disconnect sid s))"
  by (simp add: server_inv_def on_disconnect_def distinct_delete list_all_delete)

lemma server_inv_step: "server_inv s \<Longrightarrow> server_inv (fst (step e s))"
  by (cases e)
     (simp_all add: on_START_GAME_def server_inv_startGame server_inv_PLACE_BET
        server_inv_CASH_OUT server_inv_disconnect server_inv_tick)

lemma server_inv_run_from: "server_inv s \<Longrightarrow> server_inv (run_from s es)"
  unfolding run_from_def by (induction es arbitrary: s) (simp_all add: server_inv_step)

lemma server_inv_run: "server_inv (run es)"
  unfolding run_def by (rule server_inv_run_from [OF server_inv_init])

subsection \<open>Invariants of the GameServer\<close>

lemma gs_addToHistory_fields:
  "gs_history (game (fst (gs_addToHistory m p st s)))
     = (if length (gs_history (game s)) \<ge> 50
        then butlast (\<lparr>mult = m, h_profit = p, status = st\<rparr> # gs_history (game s))
        else \<lparr>mult = m, h_profit = p, status = st\<rparr> # gs_history (game s))"
  "user (fst (gs_addToHistory m p st s)) = user s"
  "bets (fst (gs_addToHistory m p st s)) = bets s"
  "gs_running (game (fst (gs_addToHistory m p st s))) = gs_running (game s)"
  "gs_crashed (game (fst (gs_addToHistory m p st s))) = gs_crashed (game s)"
  "gs_multiplier (game (fst (gs_addToHistory m p st s))) = gs_multiplier (game s)"
  "gs_crashPoint (game (fst (gs_addToHistory m p st s))) = gs_crashPoint (game s)"
  "gs_id (game (fst (gs_addToHistory m p st s))) = gs_id (game s)"
  by (simp_all add: gs_addToHistory_def Let_def)

lemma gs_addToHistory_take:
  "length (gs_history (game s)) \<le> 50 \<Longrightarrow>
   gs_history (game (fst (gs_addToHistory m p st s)))
     = take 50 (\<lparr>mult = m, h_profit = p, status = st\<rparr> # gs_history (game s))"
  by (cases "length (gs_history (game s)) = 50")
     (simp_all add: gs_addToHistory_def Let_def butlast_conv_take)

lemma gs_inv_addToHistory: "gs_inv s \<Longrightarrow> gs_inv (fst (gs_addToHistory m p st s))"
  by (simp add: gs_inv_def gs_addToHistory_take gs_addToHistory_fields del: gs_addToHistory_fields(1))

lemma gs_inv_init: "gs_inv (gs_init u)"
  by (simp add: gs_inv_def gs_init_def)

lemma gs_inv_login: "gs_inv s \<Longrightarrow> gs_inv (fst (gs_login uname rnd s))"
  by (simp add: gs_inv_def gs_login_def Let_def)

lemma gs_inv_logout: "gs_inv s \<Longrightarrow> gs_inv (fst (gs_logout s))"
  by (simp add: gs_inv_def gs_logout_def)

lemma gs_inv_redeem: "gs_inv s \<Longrightarrow> gs_inv (fst (gs_redeem amt s))"
  by (simp add: gs_inv_def gs_redeem_def Let_def split: option.splits)

lemma gs_inv_startGame: "gs_inv s \<Longrightarrow> gs_inv (fst (gs_startGame now r modeId s))"
  by (simp add: gs_inv_def gs_startGame_def Let_def)

lemma gs_inv_placeBet: "gs_inv s \<Longrightarrow> gs_inv (fst (gs_placeBet amt s))"
  by (simp add: gs_inv_def gs_placeBet_def Let_def list_all_update split: option.splits)

lemma gs_inv_cashOut: "gs_inv s \<Longrightarrow> gs_inv (fst (gs_cashOut s))"
  by (auto simp: gs_inv_def gs_cashOut_def Let_def
           intro!: list_all_update dest: list_all_map_of split: option.splits)

lemma gs_inv_crash: "gs_inv s \<Longrightarrow> gs_inv (fst (gs_crash s))"
proof -
  assume inv: "gs_inv s"
  have a: "\<And>t m p st. gs_inv t \<Longrightarrow> gs_inv (fst (gs_addToHistory m p st t))"
    by (rule gs_inv_addToHistory)
  have b: "gs_inv (s\<lparr>game := (game s)\<lparr>gs_running := False, gs_crashed := True\<rparr>\<rparr>)"
    using inv by (simp add: gs_inv_def)
  have c: "\<And>u. gs_inv (s\<lparr>game := (game s)\<lparr>gs_running := False, gs_crashed := True\<rparr>, user := u\<rparr>)"
    using inv by (simp add: gs_inv_def)
  show ?thesis
    using a [OF b] a [OF c]
    by (simp add: gs_crash_def Let_def b case_prod_beta split: option.splits)
qed

lemma gs_gameLoop_idle: "\<not> gs_running (game s) \<Longrightarrow> gs_gameLoop now s = (s, RetUndefined, [])"
  by (simp add: gs_gameLoop_def)

lemma gs_gameLoop_running:
  "gs_running (game s) \<Longrightarrow>
   gs_gameLoop now s =
     (if gs_crashPoint (game s) \<le> gs_multiplier (game s) * 1.0045
      then gs_crash (s\<lparr>game := (game s)\<lparr>gs_multiplier := gs_multiplier (game s) * 1.0045\<rparr>\<rparr>)
      else (s\<lparr>game := (game s)\<lparr>gs_multiplier := gs_multiplier (game s) * 1.0045\<rparr>\<rparr>, RetUndefined,
            [GS_TICK (gs_multiplier (game s) * 1.0045) (real_of_int (now - gs_startTime (game s)) / 1000)]))"
proof -
  have g: "\<And>m::real. m + m * 0.15 * (config_tickRate / 1000) = m * 1.0045"
    by (simp add: config_tickRate_def)
  assume "gs_running (game s)"
  then show ?thesis unfolding gs_gameLoop_def Let_def g by simp
qed

lemma gs_inv_gameLoop: "gs_inv s \<Longrightarrow> gs_inv (fst (gs_gameLoop now s))"
proof (cases "gs_running (game s)")
  case False
  assume "gs_inv s"
  with False show ?thesis by (simp add: gs_gameLoop_idle)
next
  case True
  assume inv: "gs_inv s"
  let ?s = "s\<lparr>game := (game s)\<lparr>gs_multiplier := gs_multiplier (game s) * 1.0045\<rparr>\<rparr>"
  have "gs_inv ?s" using inv by (simp add: gs_inv_def)
  then show ?thesis
    using True gs_inv_crash [of ?s] by (simp add: gs_gameLoop_running)
qed

lemma gs_inv_step: "gs_inv s \<Longrightarrow> gs_inv (fst (gs_step c s))"
  by (cases c)
     (simp_all add: gs_inv_login gs_inv_logout gs_inv_redeem gs_inv_startGame
        gs_inv_placeBet gs_inv_cashOut gs_inv_gameLoop)

lemma gs_inv_run_from: "gs_inv s \<Longrightarrow> gs_inv (gs_run_from s cs)"
  unfolding gs_run_from_def by (induction cs arbitrary: s) (simp_all add: gs_inv_step)

lemma gs_inv_run: "gs_inv (gs_run u cs)"
  unfolding gs_run_def by (rule gs_inv_run_from [OF gs_inv_init])

subsection \<open>Cashing out\<close>



lemma on_CASH_OUT_successD:
  "CASHOUT_SUCCESS m w p \<in> set (snd (on_CASH_OUT sid s)) \<Longrightarrow>
   running (gameState s) \<and> \<not> crashed (gameState s) \<and>
   (\<exists>b. map_of (activeBets s) sid = Some b \<and> \<not> cashedOut b \<and>
        m = multiplier (gameState s) \<and>
        w = \<lfloor>amount b * m\<rfloor> \<and> p = real_of_int w - amount b)"
  by (auto simp: on_CASH_OUT_def Let_def split: if_splits option.splits)


lemma gs_cashOut_success:
  "gs_running (game t) \<Longrightarrow> map_of (bets t) (gs_id (game t)) = Some b \<Longrightarrow>
   \<not> gs_cashedOut b \<Longrightarrow> user t = Some u \<Longrightarrow>
   gs_cashOut t =
     (t\<lparr>bets := AList.update (gs_id (game t))
          (b\<lparr>gs_cashedOut := True,
             gs_profit := real_of_int \<lfloor>gs_amount b * gs_multiplier (game t)\<rfloor> - gs_amount b\<rparr>)
          (bets t),
        user := Some (u\<lparr>balance := balance u + real_of_int \<lfloor>gs_amount b * gs_multiplier (game t)\<rfloor>,
                         totalProfit := totalProfit u
                           + (real_of_int \<lfloor>gs_amount b * gs_multiplier (game t)\<rfloor> - gs_amount b)\<rparr>)\<rparr>,
      RetSuccess,
      [GS_CASHOUT_SUCCESS (gs_multiplier (game t))
         \<lfloor>gs_amount b * gs_multiplier (game t)\<rfloor>
         (real_of_int \<lfloor>gs_amount b * gs_multiplier (game t)\<rfloor> - gs_amount b),
       USER_UPDATE (Some (u\<lparr>balance := balance u + real_of_int \<lfloor>gs_amount b * gs_multiplier (game t)\<rfloor>,
                         totalProfit := totalProfit u
                           + (real_of_int \<lfloor>gs_amount b * gs_multiplier (game t)\<rfloor> - gs_amount b)\<rparr>))])"
  by (simp add: gs_cashOut_def Let_def)

lemma gs_cashOut_successD:
  "GS_CASHOUT_SUCCESS m w p \<in> set (snd (snd (gs_cashOut t))) \<Longrightarrow>
   gs_running (game t) \<and>
   (\<exists>b u. map_of (bets t) (gs_id (game t)) = Some b \<and> \<not> gs_cashedOut b \<and> user t = Some u \<and>
        m = gs_multiplier (game t) \<and>
        w = \<lfloor>gs_amount b * m\<rfloor> \<and> p = real_of_int w - gs_amount b \<and>
        balance (the (user (fst (gs_cashOut t)))) = balance u + real_of_int w \<and>
        fst (snd (gs_cashOut t)) = RetSuccess)"
  by (auto simp: gs_cashOut_def Let_def split: if_splits option.splits)

text \<open>
  C1. Every successful cash-out happens in a running, not crashed round, on a bet of the
  requester that is not yet cashed out; the multiplier \<open>m\<close> it reports is the stored
  current multiplier, the win amount is \<open>\<lfloor>stake * m\<rfloor>\<close> for that same \<open>m\<close>, and the
  profit is the win amount minus the stake. In the GameServer the balance is credited
  with the win amount. The witness is the example of the specification: stake 100 at
  multiplier 2.50 pays 250, profit 150.
\<close>

theorem C1_cash_out_payout:
  "(CASHOUT_SUCCESS m w p \<in> set (snd (on_CASH_OUT sid s)) \<longrightarrow>
      running (gameState s) \<and> \<not> crashed (gameState s) \<and>
      (\<exists>b. map_of (activeBets s) sid = Some b \<and> \<not> cashedOut b \<and>
           m = multiplier (gameState s) \<and>
           w = \<lfloor>amount b * m\<rfloor> \<and> p = real_of_int w - amount b))
   \<and> (GS_CASHOUT_SUCCESS m' w' p' \<in> set (snd (snd (gs_cashOut t))) \<longrightarrow>
      gs_running (game t) \<and>
      (\<exists>b u. map_of (bets t) (gs_id (game t)) = Some b \<and> \<not> gs_cashedOut b \<and> user t = Some u \<and>
           m' = gs_multiplier (game t) \<and>
           w' = \<lfloor>gs_amount b * m'\<rfloor> \<and> p' = real_of_int w' - gs_amount b \<and>
           balance (the (user (fst (gs_cashOut t)))) = balance u + real_of_int w' \<and>
           fst (snd (gs_cashOut t)) = RetSuccess))"
  using on_CASH_OUT_successD [of m w p sid s] gs_cashOut_successD [of m' w' p' t]
  by blast

theorem C1_cash_out_payout_witness:
  "snd (on_CASH_OUT ''a''
     \<lparr>gameState = \<lparr>running = True, multiplier = 2.50, crashPoint = 7, startTime = 0,
                   crashed = False, gameId = Some 0, history = []\<rparr>,
      activeBets = [(''a'', \<lparr>amount = 100, cashedOut = False, profit = 0, username = ''ann''\<rparr>)]\<rparr>)
     = [CASHOUT_SUCCESS 2.50 250 150]
   \<and> snd (snd (gs_cashOut
     \<lparr>user = Some \<lparr>u_username = ''bob'', balance = 4900, referralCode = 1234, totalProfit = 0\<rparr>,
      game = \<lparr>gs_id = Some 0, gs_running = True, gs_multiplier = 2.50, gs_crashPoint = 7,
              gs_startTime = 0, gs_history = [], gs_crashed = False\<rparr>,
      bets = [(Some 0, \<lparr>gs_amount = 100, gs_cashedOut = False, gs_profit = 0\<rparr>)]\<rparr>))
     = [GS_CASHOUT_SUCCESS 2.50 250 150,
        USER_UPDATE (Some \<lparr>u_username = ''bob'', balance = 5150, referralCode = 1234,
                           totalProfit = 150\<rparr>)]
   \<and> (250::int) = \<lfloor>real_of_int 100 * 2.50\<rfloor> \<and> (150::int) = 250 - 100"
  using C1_cash_out_payout [of "2.50" 250 150 "''a''"
     "\<lparr>gameState = \<lparr>running = True, multiplier = 2.50, crashPoint = 7, startTime = 0,
                   crashed = False, gameId = Some 0, history = []\<rparr>,
      activeBets = [(''a'', \<lparr>amount = 100, cashedOut = False, profit = 0, username = ''ann''\<rparr>)]\<rparr>"
     "2.50" 250 150
     "\<lparr>user = Some \<lparr>u_username = ''bob'', balance = 4900, referralCode = 1234, totalProfit = 0\<rparr>,
      game = \<lparr>gs_id = Some 0, gs_running = True, gs_multiplier = 2.50, gs_crashPoint = 7,
              gs_startTime = 0, gs_history = [], gs_crashed = False\<rparr>,
      bets = [(Some 0, \<lparr>gs_amount = 100, gs_cashedOut = False, gs_profit = 0\<rparr>)]\<rparr>"]
  by (simp add: on_CASH_OUT_def gs_cashOut_def Let_def)

subsection \<open>The history\<close>

lemma foldl_addToHistory:
  "length h \<le> 50 \<Longrightarrow>
   foldl (\<lambda>h (now, cp). addToHistory now cp h) h rounds
     = take 50 (rev (map (\<lambda>(now, cp). \<lparr>he_crashPoint = cp, timestamp = now\<rparr>) rounds) @ h)"
proof (induction rounds arbitrary: h)
  case Nil
  then show ?case by simp
next
  case (Cons a rounds)
  obtain now cp where a: "a = (now, cp)" by (cases a)
  let ?e = "\<lparr>he_crashPoint = cp, timestamp = now\<rparr>"
  let ?r = "rev (map (\<lambda>(now, cp). \<lparr>he_crashPoint = cp, timestamp = now\<rparr>) rounds)"
  have "foldl (\<lambda>h (now, cp). addToHistory now cp h) h (a # rounds)
      = take 50 (?r @ take 50 (?e # h))"
    using Cons.IH [of "addToHistory now cp h"] Cons.prems
    by (simp add: a addToHistory_length) (simp add: addToHistory_take)
  also have "\<dots> = take 50 (?r @ ?e # h)"
    by (simp add: take_Cons' min_def)
  finally show ?case by (simp add: a)
qed

lemma foldl_gs_addToHistory:
  "length (gs_history (game s)) \<le> 50 \<Longrightarrow>
   gs_history (game (foldl (\<lambda>s (m, p, st). fst (gs_addToHistory m p st s)) s rounds))
     = take 50 (rev (map (\<lambda>(m, p, st). \<lparr>mult = m, h_profit = p, status = st\<rparr>) rounds)
                @ gs_history (game s))"
proof (induction rounds arbitrary: s)
  case Nil
  then show ?case by simp
next
  case (Cons a rounds)
  obtain m p st where a: "a = (m, p, st)" by (cases a)
  let ?e = "\<lparr>mult = m, h_profit = p, status = st\<rparr>"
  let ?r = "rev (map (\<lambda>(m, p, st). \<lparr>mult = m, h_profit = p, status = st\<rparr>) rounds)"
  let ?s = "fst (gs_addToHistory m p st s)"
  have h: "gs_history (game ?s) = take 50 (?e # gs_history (game s))"
    using Cons.prems by (rule gs_addToHistory_take)
  then have l: "length (gs_history (game ?s)) \<le> 50" by simp
  have "gs_history (game (foldl (\<lambda>s (m, p, st). fst (gs_addToHistory m p st s)) s (a # rounds)))
      = take 50 (?r @ take 50 (?e # gs_history (game s)))"
    using Cons.IH [OF l] by (simp add: a h)
  also have "\<dots> = take 50 (?r @ ?e # gs_history (game s))"
    by (simp add: take_Cons' min_def)
  finally show ?case by (simp add: a)
qed

lemma history_ring_law:
  "foldl (\<lambda>h (now, cp). addToHistory now cp h) [] rounds
     = take 50 (rev (map (\<lambda>(now, cp). \<lparr>he_crashPoint = cp, timestamp = now\<rparr>) rounds))"
  using foldl_addToHistory [of "[]" rounds] by simp

lemma history_ring_51:
  "length rounds = 51 \<Longrightarrow>
   foldl (\<lambda>h (now, cp). addToHistory now cp h) [] rounds
     = rev (map (\<lambda>(now, cp). \<lparr>he_crashPoint = cp, timestamp = now\<rparr>) (tl rounds))"
proof -
  assume len: "length rounds = 51"
  obtain x xs where r: "rounds = x # xs" using len by (cases rounds) auto
  then have "length xs = 50" using len by simp
  then show ?thesis unfolding history_ring_law by (simp add: r)
qed

lemma history_run_le: "length (history (gameState (run es))) \<le> 50"
  using server_inv_run [of es] by (simp add: server_inv_def)

lemma gs_history_run_le: "length (gs_history (game (gs_run u cs))) \<le> 50"
  using gs_inv_run [of u cs] by (simp add: gs_inv_def)

text \<open>On the running server the history changes exactly when a tick crashes the round,
  and then by one entry with the crash point and the clock reading of that tick.\<close>

lemma step_history:
  "history (gameState (fst (step e s))) =
     (case e of
        Tick now \<Rightarrow>
          if running (gameState s) \<and> crashPoint (gameState s) \<le> grow (multiplier (gameState s))
          then addToHistory now (crashPoint (gameState s)) (history (gameState s))
          else history (gameState s)
      | _ \<Rightarrow> history (gameState s))"
  by (cases e)
     (simp_all add: on_START_GAME_def startGame_def on_PLACE_BET_def on_CASH_OUT_def
        on_disconnect_def tick_def crash_def grow_def Let_def split: option.splits)

lemma step_crash_points:
  "crash_points (snd (step e s)) =
     (case e of
        Tick now \<Rightarrow>
          if running (gameState s) \<and> crashPoint (gameState s) \<le> grow (multiplier (gameState s))
          then [crashPoint (gameState s)] else []
      | _ \<Rightarrow> [])"
  by (cases e)
     (simp_all add: crash_points_def on_START_GAME_def startGame_def on_PLACE_BET_def
        on_CASH_OUT_def on_disconnect_def tick_def crash_def grow_def Let_def
        split: option.splits)

lemma crash_points_append: "crash_points (xs @ ys) = crash_points xs @ crash_points ys"
  by (simp add: crash_points_def)

lemma history_of_trace:
  "length (history (gameState s)) \<le> 50 \<Longrightarrow>
   map he_crashPoint (history (gameState (run_from s es)))
     = take 50 (rev (crash_points (trace s es)) @ map he_crashPoint (history (gameState s)))"
proof (induction es arbitrary: s)
  case Nil
  then show ?case by (simp add: run_from_def crash_points_def)
next
  case (Cons e es)
  let ?s = "fst (step e s)"
  let ?h = "map he_crashPoint (history (gameState s))"
  have h: "map he_crashPoint (history (gameState ?s))
             = take 50 (rev (crash_points (snd (step e s))) @ ?h)"
    using Cons.prems
    by (cases e)
       (simp_all add: step_history step_crash_points addToHistory_take take_map
          del: step.simps)
  have "length (map he_crashPoint (history (gameState ?s))) \<le> 50"
    unfolding h by simp
  then have l: "length (history (gameState ?s)) \<le> 50" by simp
  have r: "run_from s (e # es) = run_from ?s es" by (simp add: run_from_def)
  have "map he_crashPoint (history (gameState (run_from s (e # es))))
      = take 50 (rev (crash_points (trace ?s es))
                 @ take 50 (rev (crash_points (snd (step e s))) @ ?h))"
    using Cons.IH [OF l] by (simp add: r h)
  also have "\<dots> = take 50 (rev (crash_points (trace ?s es))
                 @ rev (crash_points (snd (step e s))) @ ?h)"
    by (simp add: min_def)
  finally show ?case by (simp add: crash_points_append)
qed

lemma history_of_run:
  "map he_crashPoint (history (gameState (run es)))
     = take 50 (rev (crash_points (trace init_server es)))"
  using history_of_trace [of init_server es]
  by (simp add: run_def init_server_def init_gameState_def)

text \<open>The GameServer's crash prepends one entry as well, unless it throws.\<close>

lemma gs_crash_history:
  "fst (snd (gs_crash t)) \<noteq> TypeError \<Longrightarrow> length (gs_history (game t)) \<le> 50 \<Longrightarrow>
   \<exists>p st. gs_history (game (fst (gs_crash t)))
            = take 50 (\<lparr>mult = gs_crashPoint (game t), h_profit = p, status = st\<rparr>
                       # gs_history (game t))"
proof -
  assume nt: "fst (snd (gs_crash t)) \<noteq> TypeError" and l: "length (gs_history (game t)) \<le> 50"
  let ?t = "t\<lparr>game := (game t)\<lparr>gs_running := False, gs_crashed := True\<rparr>\<rparr>"
  have a: "\<And>p st u. length (gs_history (game (?t\<lparr>user := u\<rparr>))) \<le> 50" using l by simp
  have b: "length (gs_history (game ?t)) \<le> 50" using l by simp
  show ?thesis
    using nt gs_addToHistory_take [OF b] gs_addToHistory_take [OF a]
    by (auto simp: gs_crash_def Let_def case_prod_beta split: option.splits if_splits)
qed

text \<open>
  C9, on the GameServer. \<^verbatim>\<open>_crash\<close> reads \<^verbatim>\<open>this._state.user.totalProfit\<close> without
  checking that a user is logged in. After a login, the start of a round with crash
  target 1.00, a bet of 100 and a logout, the first tick crashes the round: the flags are
  set, then the property access throws, and neither a history entry nor a crash event
  follows. The round is over and the history is still empty. The Socket.IO server
  records every crash (\<open>history_of_run\<close>: the crash points in its history are the last 50
  crash points it emitted, most recent first), and so does the GameServer whenever
  \<^verbatim>\<open>_crash\<close> does not throw (\<open>gs_crash_history\<close>).
\<close>

theorem C9_gs_crash_without_entry:
  "gs_gameLoop 30 (gs_run None [Login ''bob'' 0, StartGame 0 0 ''normal'', PlaceBet 100, Logout])
     = (\<lparr>user = None,
         game = \<lparr>gs_id = Some 0, gs_running = False, gs_multiplier = 1.0045, gs_crashPoint = 1,
                 gs_startTime = 0, gs_history = [], gs_crashed = True\<rparr>,
         bets = [(Some 0, \<lparr>gs_amount = 100, gs_cashedOut = False, gs_profit = 0\<rparr>)]\<rparr>,
        TypeError, [])"
  by (simp add: gs_run_def gs_run_from_def gs_init_def gs_login_def gs_startGame_def
        gs_placeBet_def gs_logout_def gs_gameLoop_def gs_crash_def drawCrashPoint_def
        config_tickRate_def Let_def)

subsection \<open>After the crash\<close>










subsection \<open>Settlement at the crash\<close>










subsection \<open>No bet is settled at two crashes\<close>




lemma pending_le_one: "pending s sid \<le> 1"
  by (simp add: pending_def)

















subsection \<open>What a cash-out pays against the stake\<close>









subsection \<open>Growth of the multiplier\<close>

lemma sq_step: "b \<le> x ^ n \<Longrightarrow> 0 \<le> b \<Longrightarrow> c \<le> b * b \<Longrightarrow> c \<le> (x::real) ^ (2 * n)"
proof -
  assume a: "b \<le> x ^ n" "0 \<le> b" "c \<le> b * b"
  have "b * b \<le> x ^ n * x ^ n" using a by (intro mult_mono) auto
  also have "\<dots> = x ^ (2 * n)" by (simp add: power_add mult_2)
  finally show ?thesis using a by simp
qed

lemma mul_step:
  "b \<le> x ^ n \<Longrightarrow> c \<le> x ^ m \<Longrightarrow> 0 \<le> b \<Longrightarrow> 0 \<le> c \<Longrightarrow> d \<le> b * c \<Longrightarrow>
   d \<le> (x::real) ^ (n + m)"
proof -
  assume a: "b \<le> x ^ n" "c \<le> x ^ m" "0 \<le> b" "0 \<le> c" "d \<le> b * c"
  have "b * c \<le> x ^ n * x ^ m" using a by (intro mult_mono) auto
  then show ?thesis using a by (simp add: power_add)
qed

text \<open>Lower bounds of the powers of 1.0045, by repeated squaring.\<close>

lemma g2: "1.009 \<le> (1.0045::real) ^ 2" by (simp add: power2_eq_square)
lemma g4: "1.018 \<le> (1.0045::real) ^ 4" using sq_step [OF g2, where c = "1.018"] by simp
lemma g8: "1.036 \<le> (1.0045::real) ^ 8" using sq_step [OF g4, where c = "1.036"] by simp
lemma g16: "1.073 \<le> (1.0045::real) ^ 16" using sq_step [OF g8, where c = "1.073"] by simp
lemma g32: "1.151 \<le> (1.0045::real) ^ 32" using sq_step [OF g16, where c = "1.151"] by simp
lemma g64: "1.324 \<le> (1.0045::real) ^ 64" using sq_step [OF g32, where c = "1.324"] by simp
lemma g128: "1.752 \<le> (1.0045::real) ^ 128" using sq_step [OF g64, where c = "1.752"] by simp
lemma g256: "3.069 \<le> (1.0045::real) ^ 256" using sq_step [OF g128, where c = "3.069"] by simp
lemma g512: "9.418 \<le> (1.0045::real) ^ 512" using sq_step [OF g256, where c = "9.418"] by simp
lemma g1024: "88.69 \<le> (1.0045::real) ^ 1024" using sq_step [OF g512, where c = "88.69"] by simp
lemma g1536: "835.2 \<le> (1.0045::real) ^ 1536" using mul_step [OF g1024 g512, where d = "835.2"] by simp
lemma g1600: "1000 \<le> (1.0045::real) ^ 1600" using mul_step [OF g1536 g64, where d = "1000"] by simp

lemma growth_reaches_cap: "1600 \<le> n \<Longrightarrow> 1000 \<le> (1.0045::real) ^ n"
proof -
  assume "1600 \<le> n"
  then have "(1.0045::real) ^ 1600 \<le> 1.0045 ^ n" by (intro power_increasing) auto
  with g1600 show ?thesis by linarith
qed

lemma tick_gameState:
  "gameState (fst (tick now s)) =
     (if \<not> running (gameState s) then gameState s
      else if crashPoint (gameState s) \<le> multiplier (gameState s) * 1.0045
      then (gameState s)\<lparr>multiplier := multiplier (gameState s) * 1.0045, running := False,
              crashed := True,
              history := addToHistory now (crashPoint (gameState s)) (history (gameState s))\<rparr>
      else (gameState s)\<lparr>multiplier := multiplier (gameState s) * 1.0045\<rparr>)"
  by (simp add: tick_idle tick_running crash_fields)

lemma gs_crash_game:
  "gs_running (game (fst (gs_crash t))) = False"
  "gs_crashed (game (fst (gs_crash t))) = True"
  "gs_multiplier (game (fst (gs_crash t))) = gs_multiplier (game t)"
  "gs_crashPoint (game (fst (gs_crash t))) = gs_crashPoint (game t)"
  by (simp_all add: gs_crash_def Let_def case_prod_beta gs_addToHistory_fields split: option.splits)

lemma gs_gameLoop_game:
  "gs_running (game (fst (gs_gameLoop now t)))
     = (gs_running (game t) \<and> \<not> gs_crashPoint (game t) \<le> gs_multiplier (game t) * 1.0045)"
  "gs_multiplier (game (fst (gs_gameLoop now t)))
     = (if gs_running (game t) then gs_multiplier (game t) * 1.0045 else gs_multiplier (game t))"
  "gs_crashPoint (game (fst (gs_gameLoop now t))) = gs_crashPoint (game t)"
  "gs_crashed (game (fst (gs_gameLoop now t)))
     = (if gs_running (game t) \<and> gs_crashPoint (game t) \<le> gs_multiplier (game t) * 1.0045
        then True else gs_crashed (game t))"
  by (cases "gs_running (game t)"; simp add: gs_gameLoop_idle gs_gameLoop_running gs_crash_game)+

lemma startGame_game:
  "running (gameState (fst (startGame now r s)))"
  "multiplier (gameState (fst (startGame now r s))) = 1"
  "crashPoint (gameState (fst (startGame now r s))) \<le> 1000"
  using drawCrashPoint_bounds [of r] by (simp_all add: startGame_def Let_def)

lemma gs_startGame_game:
  "\<not> gs_running (game t) \<Longrightarrow> gs_running (game (fst (gs_startGame now r modeId t)))"
  "\<not> gs_running (game t) \<Longrightarrow> gs_multiplier (game (fst (gs_startGame now r modeId t))) = 1"
  "\<not> gs_running (game t) \<Longrightarrow> gs_crashPoint (game (fst (gs_startGame now r modeId t))) \<le> 1000"
  using drawCrashPoint_bounds [of r] by (simp_all add: gs_startGame_def Let_def)

lemma grow_funpow: "(grow ^^ n) m = m * 1.0045 ^ n"
  by (induction n) (simp_all add: grow_def CONFIG_growthRate_def CONFIG_tickRate_def)

lemma gs_grow_funpow: "(gs_grow ^^ n) m = m * 1.0045 ^ n"
  by (induction n) (simp_all add: gs_grow_def config_tickRate_def)

lemma view_tick: "view (fst (tick now s)) = tick_view (view s)"
  by (simp add: view_def tick_gameState)

lemma gs_view_gameLoop: "gs_view (fst (gs_gameLoop now t)) = tick_view (gs_view t)"
  by (simp add: gs_view_def gs_gameLoop_game)

lemma view_ticks: "view (ticks ts s) = (tick_view ^^ length ts) (view s)"
proof (induction ts arbitrary: s)
  case Nil
  then show ?case by (simp add: ticks_def)
next
  case (Cons a ts)
  have "ticks (a # ts) s = ticks ts (fst (tick a s))" by (simp add: ticks_def)
  then show ?case using Cons [of "fst (tick a s)"] by (simp add: view_tick funpow_swap1)
qed

lemma gs_view_ticks: "gs_view (gs_ticks ts t) = (tick_view ^^ length ts) (gs_view t)"
proof (induction ts arbitrary: t)
  case Nil
  then show ?case by (simp add: gs_ticks_def)
next
  case (Cons a ts)
  have "gs_ticks (a # ts) t = gs_ticks ts (fst (gs_gameLoop a t))" by (simp add: gs_ticks_def)
  then show ?case using Cons [of "fst (gs_gameLoop a t)"]
    by (simp add: gs_view_gameLoop funpow_swap1)
qed

text \<open>The phase \<open>n\<close> ticks after the start of a round with crash point \<open>cp\<close>: the round
  is running exactly as long as every multiplier computed so far was below \<open>cp\<close>, and then
  the multiplier is \<open>1.0045 ^ n\<close>; otherwise it stopped at the first \<open>k\<close> with
  \<open>cp \<le> 1.0045 ^ k\<close> and the multiplier stays \<open>1.0045 ^ k\<close>.\<close>

lemma phase_after:
  "(tick_view ^^ n) (True, False, 1, cp) = (r, c, m, q) \<Longrightarrow>
   q = cp \<and> c = (\<not> r) \<and>
   (r \<longrightarrow> m = 1.0045 ^ n \<and> (\<forall>k. 1 \<le> k \<and> k \<le> n \<longrightarrow> 1.0045 ^ k < cp)) \<and>
   (\<not> r \<longrightarrow> (\<exists>k. 1 \<le> k \<and> k \<le> n \<and> m = 1.0045 ^ k \<and> cp \<le> 1.0045 ^ k \<and>
                (\<forall>j. 1 \<le> j \<and> j < k \<longrightarrow> 1.0045 ^ j < cp)))"
proof (induction n arbitrary: r c m q)
  case 0
  then show ?case by simp
next
  case (Suc n)
  obtain r0 c0 m0 q0 where v: "(tick_view ^^ n) (True, False, 1, cp) = (r0, c0, m0, q0)"
    by (metis prod_cases4)
  note IH = Suc.IH [OF v]
  from Suc.prems v have step: "tick_view (r0, c0, m0, q0) = (r, c, m, q)" by simp
  show ?case
  proof (cases r0)
    case False
    with step have e: "r = r0" "c = c0" "m = m0" "q = q0" by simp_all
    from IH False obtain k where k: "1 \<le> k" "k \<le> n" "m0 = 1.0045 ^ k" "cp \<le> 1.0045 ^ k"
      "\<forall>j. 1 \<le> j \<and> j < k \<longrightarrow> 1.0045 ^ j < cp" by blast
    then have "1 \<le> k \<and> k \<le> Suc n \<and> m = 1.0045 ^ k \<and> cp \<le> 1.0045 ^ k \<and>
                (\<forall>j. 1 \<le> j \<and> j < k \<longrightarrow> 1.0045 ^ j < cp)" using e by simp
    then show ?thesis using IH False e by blast
  next
    case True
    with IH have m0: "m0 = 1.0045 ^ n" and q0: "q0 = cp" and c0: "\<not> c0"
      and below: "\<forall>k. 1 \<le> k \<and> k \<le> n \<longrightarrow> 1.0045 ^ k < cp" by simp_all
    have m': "m0 * 1.0045 = 1.0045 ^ Suc n" by (simp add: m0)
    show ?thesis
    proof (cases "cp \<le> m0 * 1.0045")
      case c: True
      with step True q0 have e: "r = False" "c = True" "m = m0 * 1.0045" "q = cp" by simp_all
      have "1 \<le> Suc n \<and> Suc n \<le> Suc n \<and> m = 1.0045 ^ Suc n \<and> cp \<le> 1.0045 ^ Suc n \<and>
            (\<forall>j. 1 \<le> j \<and> j < Suc n \<longrightarrow> 1.0045 ^ j < cp)"
        using e c below unfolding m' by (simp add: less_Suc_eq_le)
      then show ?thesis using e by blast
    next
      case c: False
      with step True q0 have e: "r = True" "c = c0" "m = m0 * 1.0045" "q = cp" by simp_all
      have "\<forall>k. 1 \<le> k \<and> k \<le> Suc n \<longrightarrow> 1.0045 ^ k < cp"
      proof (intro allI impI)
        fix k assume "1 \<le> k \<and> k \<le> Suc n"
        then consider "k \<le> n" "1 \<le> k" | "k = Suc n" by (auto simp: le_Suc_eq)
        then show "1.0045 ^ k < cp"
        proof cases
          case 1
          with below show ?thesis by simp
        next
          case 2
          with c show ?thesis unfolding m' by simp
        qed
      qed
      then show ?thesis using e c0 unfolding m' by simp
    qed
  qed
qed

lemma tick_view_mono:
  "0 \<le> fst (snd (snd v)) \<Longrightarrow>
   fst (snd (snd v)) \<le> fst (snd (snd (tick_view v))) \<and> 0 \<le> fst (snd (snd (tick_view v)))"
  by (cases v) simp

lemma funpow_view_mono:
  "0 \<le> fst (snd (snd v)) \<Longrightarrow>
   fst (snd (snd ((tick_view ^^ n) v))) \<le> fst (snd (snd ((tick_view ^^ (n + k)) v))) \<and>
   0 \<le> fst (snd (snd ((tick_view ^^ (n + k)) v)))"
proof (induction k)
  case 0
  have "0 \<le> fst (snd (snd ((tick_view ^^ n) v)))" using 0
  proof (induction n)
    case 0
    then show ?case by simp
  next
    case (Suc n)
    then show ?case using tick_view_mono [of "(tick_view ^^ n) v"] by simp
  qed
  then show ?case by simp
next
  case (Suc k)
  from Suc.IH [OF Suc.prems] tick_view_mono [of "(tick_view ^^ (n + k)) v"]
  show ?case by simp
qed

lemma phase_running_iff:
  "(tick_view ^^ n) (True, False, 1, cp) = (r, c, m, q) \<Longrightarrow>
   r \<longleftrightarrow> (\<forall>k. 1 \<le> k \<and> k \<le> n \<longrightarrow> 1.0045 ^ k < cp)"
proof -
  assume v: "(tick_view ^^ n) (True, False, 1, cp) = (r, c, m, q)"
  note P = phase_after [OF v]
  show ?thesis
  proof
    assume r
    with P show "\<forall>k. 1 \<le> k \<and> k \<le> n \<longrightarrow> 1.0045 ^ k < cp" by simp
  next
    assume a: "\<forall>k. 1 \<le> k \<and> k \<le> n \<longrightarrow> 1.0045 ^ k < cp"
    show r
    proof (rule ccontr)
      assume "\<not> r"
      with P obtain k where "1 \<le> k" "k \<le> n" "cp \<le> 1.0045 ^ k" by blast
      with a show False by fastforce
    qed
  qed
qed

lemma phase_bound:
  "(tick_view ^^ n) (True, False, 1, cp) = (r, c, m, q) \<Longrightarrow> cp \<le> 1000 \<Longrightarrow> 1600 \<le> n \<Longrightarrow>
   \<not> r"
proof
  assume v: "(tick_view ^^ n) (True, False, 1, cp) = (r, c, m, q)"
    and cp: "cp \<le> 1000" and n: "1600 \<le> n" and r: r
  from phase_running_iff [OF v] r n have "(1.0045::real) ^ n < cp" by simp
  with cp growth_reaches_cap [OF n] show False by simp
qed

lemma view_start: "view (fst (startGame now r s)) = (True, False, 1, drawCrashPoint r)"
  by (simp add: view_def startGame_def Let_def)

lemma gs_view_start:
  "\<not> gs_running (game t) \<Longrightarrow>
   gs_view (fst (gs_startGame now r modeId t)) = (True, False, 1, drawCrashPoint r)"
  by (simp add: gs_view_def gs_startGame_def Let_def)

text \<open>
  C8. A tick of a running round replaces the multiplier \<open>m\<close> by
  \<open>m + m * growthRate * (tickRate / 1000)\<close>, whatever the clock reads, leaves the crash
  point as drawn, and crashes the round exactly if the new multiplier has reached the crash
  point; a tick of a round that is not running does nothing. A tick never lowers a
  non-negative multiplier. From the start of a round with draw \<open>r\<close>, after any \<open>n\<close>
  ticks: the round is still running exactly if each of the first \<open>n\<close> multipliers
  (the update applied \<open>k\<close> times to 1.00, \<open>k = 1, \<dots>, n\<close>) was below the crash point, and
  then the multiplier is the update applied \<open>n\<close> times to 1.00; otherwise the round has
  crashed, at the first \<open>k\<close> whose multiplier reached the crash point, and the multiplier
  stays at that value. The multiplier after more ticks is never smaller, it is the same
  for two tick sequences of the same length whatever their clock readings, and whatever
  the draw the round has crashed after at most 1600 ticks. The same holds of the
  GameServer's game loop. (Arithmetic is exact here; the bound 1600 is not the least one.)
\<close>

theorem C8_multiplier_growth:
  "(running (gameState s) \<longrightarrow>
      multiplier (gameState (fst (tick now s)))
        = multiplier (gameState s)
          + multiplier (gameState s) * CONFIG_growthRate * (CONFIG_tickRate / 1000) \<and>
      crashPoint (gameState (fst (tick now s))) = crashPoint (gameState s) \<and>
      running (gameState (fst (tick now s)))
        = (multiplier (gameState (fst (tick now s))) < crashPoint (gameState s)) \<and>
      crashed (gameState (fst (tick now s)))
        = (crashed (gameState s) \<or>
           crashPoint (gameState s) \<le> multiplier (gameState (fst (tick now s)))))
   \<and> (\<not> running (gameState s) \<longrightarrow> tick now s = (s, []))
   \<and> (0 \<le> multiplier (gameState s) \<longrightarrow>
        multiplier (gameState s) \<le> multiplier (gameState (fst (tick now s))))
   \<and> crashPoint (gameState (ticks ts (fst (startGame start r base)))) = drawCrashPoint r
   \<and> (running (gameState (ticks ts (fst (startGame start r base)))) \<longleftrightarrow>
        (\<forall>k. 1 \<le> k \<and> k \<le> length ts \<longrightarrow> (grow ^^ k) 1 < drawCrashPoint r))
   \<and> crashed (gameState (ticks ts (fst (startGame start r base))))
       = (\<not> running (gameState (ticks ts (fst (startGame start r base)))))
   \<and> (running (gameState (ticks ts (fst (startGame start r base)))) \<longrightarrow>
        multiplier (gameState (ticks ts (fst (startGame start r base))))
          = (grow ^^ length ts) 1)
   \<and> (\<not> running (gameState (ticks ts (fst (startGame start r base)))) \<longrightarrow>
        (\<exists>k. 1 \<le> k \<and> k \<le> length ts \<and>
             multiplier (gameState (ticks ts (fst (startGame start r base)))) = (grow ^^ k) 1 \<and>
             drawCrashPoint r \<le> (grow ^^ k) 1 \<and>
             (\<forall>j. 1 \<le> j \<and> j < k \<longrightarrow> (grow ^^ j) 1 < drawCrashPoint r)))
   \<and> multiplier (gameState (ticks ts (fst (startGame start r base))))
       \<le> multiplier (gameState (ticks (ts @ later) (fst (startGame start r base))))
   \<and> (length ts = length ts' \<longrightarrow>
        multiplier (gameState (ticks ts (fst (startGame start r base))))
          = multiplier (gameState (ticks ts' (fst (startGame start r base)))))
   \<and> (1600 \<le> length ts \<longrightarrow>
        crashed (gameState (ticks ts (fst (startGame start r base)))) \<and>
        \<not> running (gameState (ticks ts (fst (startGame start r base)))))
   \<and> (gs_running (game t) \<longrightarrow>
        gs_multiplier (game (fst (gs_gameLoop now t)))
          = gs_multiplier (game t) + gs_multiplier (game t) * 0.15 * (config_tickRate / 1000) \<and>
        gs_crashPoint (game (fst (gs_gameLoop now t))) = gs_crashPoint (game t) \<and>
        gs_running (game (fst (gs_gameLoop now t)))
          = (gs_multiplier (game (fst (gs_gameLoop now t))) < gs_crashPoint (game t)) \<and>
        gs_crashed (game (fst (gs_gameLoop now t)))
          = (gs_crashed (game t) \<or>
             gs_crashPoint (game t) \<le> gs_multiplier (game (fst (gs_gameLoop now t)))))
   \<and> (\<not> gs_running (game t) \<longrightarrow>
        gs_gameLoop now t = (t, RetUndefined, []) \<and>
        gs_crashPoint (game (gs_ticks ts (fst (gs_startGame start r modeId t)))) = drawCrashPoint r \<and>
        (gs_running (game (gs_ticks ts (fst (gs_startGame start r modeId t)))) \<longleftrightarrow>
           (\<forall>k. 1 \<le> k \<and> k \<le> length ts \<longrightarrow> (gs_grow ^^ k) 1 < drawCrashPoint r)) \<and>
        gs_crashed (game (gs_ticks ts (fst (gs_startGame start r modeId t))))
          = (\<not> gs_running (game (gs_ticks ts (fst (gs_startGame start r modeId t))))) \<and>
        (gs_running (game (gs_ticks ts (fst (gs_startGame start r modeId t)))) \<longrightarrow>
           gs_multiplier (game (gs_ticks ts (fst (gs_startGame start r modeId t))))
             = (gs_grow ^^ length ts) 1) \<and>
        (\<not> gs_running (game (gs_ticks ts (fst (gs_startGame start r modeId t)))) \<longrightarrow>
           (\<exists>k. 1 \<le> k \<and> k \<le> length ts \<and>
                gs_multiplier (game (gs_ticks ts (fst (gs_startGame start r modeId t))))
                  = (gs_grow ^^ k) 1 \<and>
                drawCrashPoint r \<le> (gs_grow ^^ k) 1 \<and>
                (\<forall>j. 1 \<le> j \<and> j < k \<longrightarrow> (gs_grow ^^ j) 1 < drawCrashPoint r))) \<and>
        gs_multiplier (game (gs_ticks ts (fst (gs_startGame start r modeId t))))
          \<le> gs_multiplier (game (gs_ticks (ts @ later) (fst (gs_startGame start r modeId t)))) \<and>
        (length ts = length ts' \<longrightarrow>
           gs_multiplier (game (gs_ticks ts (fst (gs_startGame start r modeId t))))
             = gs_multiplier (game (gs_ticks ts' (fst (gs_startGame start r modeId t))))) \<and>
        (1600 \<le> length ts \<longrightarrow>
           gs_crashed (game (gs_ticks ts (fst (gs_startGame start r modeId t)))) \<and>
           \<not> gs_running (game (gs_ticks ts (fst (gs_startGame start r modeId t))))))"
proof -
  let ?cp = "drawCrashPoint r"
  let ?S = "fst (startGame start r base)"
  let ?T = "fst (gs_startGame start r modeId t)"
  have cp: "?cp \<le> 1000" using drawCrashPoint_bounds [of r] by simp
  have G: "\<And>k. (grow ^^ k) 1 = 1.0045 ^ k" "\<And>k. (gs_grow ^^ k) 1 = 1.0045 ^ k"
    by (simp_all add: grow_funpow gs_grow_funpow)
  text \<open>One tick.\<close>
  have A: "running (gameState s) \<longrightarrow>
      multiplier (gameState (fst (tick now s)))
        = multiplier (gameState s)
          + multiplier (gameState s) * CONFIG_growthRate * (CONFIG_tickRate / 1000) \<and>
      crashPoint (gameState (fst (tick now s))) = crashPoint (gameState s) \<and>
      running (gameState (fst (tick now s)))
        = (multiplier (gameState (fst (tick now s))) < crashPoint (gameState s)) \<and>
      crashed (gameState (fst (tick now s)))
        = (crashed (gameState s) \<or>
           crashPoint (gameState s) \<le> multiplier (gameState (fst (tick now s))))"
    unfolding growth_step by (auto simp: tick_gameState)
  have A': "\<not> running (gameState s) \<longrightarrow> tick now s = (s, [])"
    by (simp add: tick_idle)
  have A'': "0 \<le> multiplier (gameState s) \<longrightarrow>
        multiplier (gameState s) \<le> multiplier (gameState (fst (tick now s)))"
    by (simp add: tick_gameState)
  have gg: "\<And>m::real. m + m * 0.15 * (config_tickRate / 1000) = m * 1.0045"
    by (simp add: config_tickRate_def)
  have B: "gs_running (game t) \<longrightarrow>
        gs_multiplier (game (fst (gs_gameLoop now t)))
          = gs_multiplier (game t) + gs_multiplier (game t) * 0.15 * (config_tickRate / 1000) \<and>
        gs_crashPoint (game (fst (gs_gameLoop now t))) = gs_crashPoint (game t) \<and>
        gs_running (game (fst (gs_gameLoop now t)))
          = (gs_multiplier (game (fst (gs_gameLoop now t))) < gs_crashPoint (game t)) \<and>
        gs_crashed (game (fst (gs_gameLoop now t)))
          = (gs_crashed (game t) \<or>
             gs_crashPoint (game t) \<le> gs_multiplier (game (fst (gs_gameLoop now t))))"
    unfolding gg by (auto simp: gs_gameLoop_game)
  text \<open>The server, \<open>n\<close> ticks after the start.\<close>
  have V: "\<And>ts. (tick_view ^^ length ts) (True, False, 1, ?cp)
             = (running (gameState (ticks ts ?S)), crashed (gameState (ticks ts ?S)),
                multiplier (gameState (ticks ts ?S)), crashPoint (gameState (ticks ts ?S)))"
    using view_ticks [of _ ?S] by (simp add: view_start) (simp add: view_def)
  note P = phase_after [OF V [of ts]]
  have C1: "crashPoint (gameState (ticks ts ?S)) = ?cp" using P by simp
  have C2: "running (gameState (ticks ts ?S)) \<longleftrightarrow>
        (\<forall>k. 1 \<le> k \<and> k \<le> length ts \<longrightarrow> (grow ^^ k) 1 < ?cp)"
    unfolding G using phase_running_iff [OF V [of ts]] .
  have C3: "crashed (gameState (ticks ts ?S)) = (\<not> running (gameState (ticks ts ?S)))"
    using P by simp
  have C4: "running (gameState (ticks ts ?S)) \<longrightarrow>
        multiplier (gameState (ticks ts ?S)) = (grow ^^ length ts) 1"
    unfolding G using P by simp
  have C5: "\<not> running (gameState (ticks ts ?S)) \<longrightarrow>
        (\<exists>k. 1 \<le> k \<and> k \<le> length ts \<and>
             multiplier (gameState (ticks ts ?S)) = (grow ^^ k) 1 \<and>
             ?cp \<le> (grow ^^ k) 1 \<and>
             (\<forall>j. 1 \<le> j \<and> j < k \<longrightarrow> (grow ^^ j) 1 < ?cp))"
    unfolding G using P by simp
  have C6: "multiplier (gameState (ticks ts ?S)) \<le> multiplier (gameState (ticks (ts @ later) ?S))"
    using funpow_view_mono [of "(True, False, 1, ?cp)" "length ts" "length later"]
    by (simp add: V [of ts] V [of "ts @ later", simplified])
  have C7: "multiplier (gameState (ticks ts ?S)) = multiplier (gameState (ticks ts' ?S))"
    if l: "length ts = length ts'"
    using V [of ts] V [of ts'] l by simp
  have C8: "crashed (gameState (ticks ts ?S)) \<and> \<not> running (gameState (ticks ts ?S))"
    if l: "1600 \<le> length ts"
    using phase_bound [OF V [of ts] cp l] C3 by simp
  text \<open>The GameServer, \<open>n\<close> ticks after the start.\<close>
  have D: "gs_gameLoop now t = (t, RetUndefined, []) \<and>
        gs_crashPoint (game (gs_ticks ts ?T)) = ?cp \<and>
        (gs_running (game (gs_ticks ts ?T)) \<longleftrightarrow>
           (\<forall>k. 1 \<le> k \<and> k \<le> length ts \<longrightarrow> (gs_grow ^^ k) 1 < ?cp)) \<and>
        gs_crashed (game (gs_ticks ts ?T)) = (\<not> gs_running (game (gs_ticks ts ?T))) \<and>
        (gs_running (game (gs_ticks ts ?T)) \<longrightarrow>
           gs_multiplier (game (gs_ticks ts ?T)) = (gs_grow ^^ length ts) 1) \<and>
        (\<not> gs_running (game (gs_ticks ts ?T)) \<longrightarrow>
           (\<exists>k. 1 \<le> k \<and> k \<le> length ts \<and>
                gs_multiplier (game (gs_ticks ts ?T)) = (gs_grow ^^ k) 1 \<and>
                ?cp \<le> (gs_grow ^^ k) 1 \<and>
                (\<forall>j. 1 \<le> j \<and> j < k \<longrightarrow> (gs_grow ^^ j) 1 < ?cp))) \<and>
        gs_multiplier (game (gs_ticks ts ?T))
          \<le> gs_multiplier (game (gs_ticks (ts @ later) ?T)) \<and>
        (length ts = length ts' \<longrightarrow>
           gs_multiplier (game (gs_ticks ts ?T)) = gs_multiplier (game (gs_ticks ts' ?T))) \<and>
        (1600 \<le> length ts \<longrightarrow>
           gs_crashed (game (gs_ticks ts ?T)) \<and> \<not> gs_running (game (gs_ticks ts ?T)))"
    if n: "\<not> gs_running (game t)"
  proof -
    have W: "\<And>ts. (tick_view ^^ length ts) (True, False, 1, ?cp)
             = (gs_running (game (gs_ticks ts ?T)), gs_crashed (game (gs_ticks ts ?T)),
                gs_multiplier (game (gs_ticks ts ?T)), gs_crashPoint (game (gs_ticks ts ?T)))"
      using gs_view_ticks [of _ ?T] by (simp add: gs_view_start [OF n]) (simp add: gs_view_def)
    note Q = phase_after [OF W [of ts]]
    have D0: "gs_gameLoop now t = (t, RetUndefined, [])" using n by (simp add: gs_gameLoop_idle)
    have D1: "gs_crashPoint (game (gs_ticks ts ?T)) = ?cp" using Q by simp
    have D2: "gs_running (game (gs_ticks ts ?T)) \<longleftrightarrow>
           (\<forall>k. 1 \<le> k \<and> k \<le> length ts \<longrightarrow> (gs_grow ^^ k) 1 < ?cp)"
      unfolding G using phase_running_iff [OF W [of ts]] .
    have D3: "gs_crashed (game (gs_ticks ts ?T)) = (\<not> gs_running (game (gs_ticks ts ?T)))"
      using Q by simp
    have D4: "gs_running (game (gs_ticks ts ?T)) \<longrightarrow>
           gs_multiplier (game (gs_ticks ts ?T)) = (gs_grow ^^ length ts) 1"
      unfolding G using Q by simp
    have D5: "\<not> gs_running (game (gs_ticks ts ?T)) \<longrightarrow>
           (\<exists>k. 1 \<le> k \<and> k \<le> length ts \<and>
                gs_multiplier (game (gs_ticks ts ?T)) = (gs_grow ^^ k) 1 \<and>
                ?cp \<le> (gs_grow ^^ k) 1 \<and>
                (\<forall>j. 1 \<le> j \<and> j < k \<longrightarrow> (gs_grow ^^ j) 1 < ?cp))"
      unfolding G using Q by simp
    have D6: "gs_multiplier (game (gs_ticks ts ?T))
          \<le> gs_multiplier (game (gs_ticks (ts @ later) ?T))"
      using funpow_view_mono [of "(True, False, 1, ?cp)" "length ts" "length later"]
      by (simp add: W [of ts] W [of "ts @ later", simplified])
    have D7: "length ts = length ts' \<longrightarrow>
           gs_multiplier (game (gs_ticks ts ?T)) = gs_multiplier (game (gs_ticks ts' ?T))"
      using W [of ts] W [of ts'] by auto
    have D8: "1600 \<le> length ts \<longrightarrow>
           gs_crashed (game (gs_ticks ts ?T)) \<and> \<not> gs_running (game (gs_ticks ts ?T))"
      using phase_bound [OF W [of ts] cp] D3 by auto
    show ?thesis using D0 D1 D2 D3 D4 D5 D6 D7 D8 by blast
  qed
  show ?thesis
    using A A' A'' C1 C2 C3 C4 C5 C6 C7 C8 B D by blast
qed

theorem C8_multiplier_growth_witness:
  "running (gameState (ticks [30, 60] (fst (startGame 0 (1 / 2) init_server))))
   \<and> multiplier (gameState (ticks [30, 60] (fst (startGame 0 (1 / 2) init_server))))
       = (grow ^^ length [30::int, 60]) 1
   \<and> multiplier (gameState (fst (tick 30 (fst (startGame 0 (1 / 2) init_server))))) = 1.0045
   \<and> running (gameState (fst (tick 30 (fst (startGame 0 (1 / 2) init_server)))))
   \<and> crashed (gameState (ticks [30] (fst (startGame 0 0 init_server))))
   \<and> tick 60 (ticks [30] (fst (startGame 0 0 init_server)))
       = (ticks [30] (fst (startGame 0 0 init_server)), [])
   \<and> crashed (gameState (ticks (replicate 1600 30) (fst (startGame 0 (1 / 2) init_server))))
   \<and> multiplier (gameState (ticks (replicate 1600 30) (fst (startGame 0 (1 / 2) init_server))))
       = multiplier (gameState (ticks (replicate 1600 31) (fst (startGame 0 (1 / 2) init_server))))
   \<and> gs_multiplier (game (fst (gs_gameLoop 30
         (fst (gs_startGame 0 (1 / 2) ''normal'' (gs_init None)))))) = 1.0045
   \<and> \<not> gs_running (game (gs_init None))
   \<and> gs_crashed (game (gs_ticks (replicate 1600 30)
                             (fst (gs_startGame 0 (1 / 2) ''normal'' (gs_init None)))))"
proof -
  let ?s = "fst (startGame 0 (1 / 2) init_server)"
  let ?z = "fst (startGame 0 0 init_server)"
  let ?t = "fst (gs_startGame 0 (1 / 2) ''normal'' (gs_init None))"
  note T1 = C8_multiplier_growth [where s = ?s and now = 30 and ts = "[30, 60]"
              and ts' = "[30, 60]" and later = "[]" and base = init_server and start = 0
              and r = "1 / 2" and t = ?t and modeId = "''normal''"]
  note T2 = C8_multiplier_growth [where s = "ticks [30] ?z" and now = 60 and ts = "[30]"
              and ts' = "[30]" and later = "[]" and base = init_server and start = 0
              and r = 0 and t = "gs_init None" and modeId = "''normal''"]
  note T3 = C8_multiplier_growth [where s = init_server and now = 30 and ts = "replicate 1600 30"
              and ts' = "replicate 1600 31" and later = "[]" and base = init_server and start = 0
              and r = "1 / 2" and t = "gs_init None" and modeId = "''normal''"]
  have s: "?s = \<lparr>gameState = \<lparr>running = True, multiplier = 1, crashPoint = 1.98, startTime = 0,
                     crashed = False, gameId = Some 0, history = []\<rparr>, activeBets = []\<rparr>"
    by (simp add: startGame_def init_server_def init_gameState_def drawCrashPoint_def Let_def)
  have t: "?t = \<lparr>user = None,
      game = \<lparr>gs_id = Some 0, gs_running = True, gs_multiplier = 1, gs_crashPoint = 1.98,
              gs_startTime = 0, gs_history = [], gs_crashed = False\<rparr>, bets = []\<rparr>"
    by (simp add: gs_startGame_def gs_init_def drawCrashPoint_def Let_def)
  have a: "running (gameState (ticks [30, 60] ?s))"
    unfolding s by (simp add: ticks_def tick_def Let_def CONFIG_growthRate_def CONFIG_tickRate_def)
  have r0: "running (gameState ?s)" unfolding s by simp
  have g0: "gs_running (game ?t)" unfolding t by simp
  have b: "multiplier (gameState (ticks [30, 60] ?s)) = (grow ^^ length [30::int, 60]) 1"
    using T1 a by blast
  note T1a = T1 [THEN conjunct1, THEN mp, OF r0]
  have c: "multiplier (gameState (fst (tick 30 ?s))) = 1.0045"
    using T1a by (simp add: s CONFIG_growthRate_def CONFIG_tickRate_def)
  then have c': "running (gameState (fst (tick 30 ?s)))"
    using T1a by (simp add: s)
  have z: "\<not> running (gameState (ticks [30] ?z))"
    by (simp add: ticks_def tick_def crash_def startGame_def init_server_def init_gameState_def
          drawCrashPoint_def Let_def CONFIG_growthRate_def CONFIG_tickRate_def)
  have d: "crashed (gameState (ticks [30] ?z))" using T2 z by blast
  have e: "tick 60 (ticks [30] ?z) = (ticks [30] ?z, [])" using T2 z by blast
  have l: "1600 \<le> length (replicate 1600 (30::int))"
    "length (replicate 1600 (30::int)) = length (replicate 1600 (31::int))" by simp_all
  have f: "crashed (gameState (ticks (replicate 1600 30) ?s))" using T3 l(1) by blast
  have h: "multiplier (gameState (ticks (replicate 1600 30) ?s))
       = multiplier (gameState (ticks (replicate 1600 31) ?s))"
    using T3 l(2) by blast
  have n: "\<not> gs_running (game (gs_init None))" by (simp add: gs_init_def)
  have i: "gs_multiplier (game (fst (gs_gameLoop 30 ?t))) = 1.0045"
    using T1 g0 by (simp add: t config_tickRate_def)
  have j: "gs_crashed (game (gs_ticks (replicate 1600 30) ?t))"
    using T3 l(1) n by blast
  show ?thesis using a b c c' d e f h i n j by blast
qed

subsection \<open>What the crash freezes\<close>

lemma hd_addToHistory:
  "hd (addToHistory now cp h) = \<lparr>he_crashPoint = cp, timestamp = now\<rparr>"
  by (cases h) (simp_all add: addToHistory_def Let_def)

lemma hd_gs_addToHistory:
  "hd (gs_history (game (fst (gs_addToHistory m p st t)))) = \<lparr>mult = m, h_profit = p, status = st\<rparr>"
  by (cases "gs_history (game t)") (simp_all add: gs_addToHistory_def Let_def)

lemma gs_crash_emits:
  "fst (snd (gs_crash t)) \<noteq> TypeError \<Longrightarrow>
   GS_GAME_CRASHED (gs_crashPoint (game t)) \<in> set (snd (snd (gs_crash t))) \<and>
   mult (hd (gs_history (game (fst (gs_crash t))))) = gs_crashPoint (game t)"
  by (auto simp: gs_crash_def Let_def case_prod_beta hd_gs_addToHistory
        split: option.splits if_splits)

text \<open>
  C7 as stated fails: with the draw \<open>r = 0\<close> the crash target is 1.00; the first tick
  computes 1.0045, crashes the round, and leaves 1.0045 as the stored multiplier.
\<close>

theorem C7_counterexample:
  "crashed (gameState (fst (tick 30 (fst (startGame 0 0 init_server)))))
   \<and> crashPoint (gameState (fst (tick 30 (fst (startGame 0 0 init_server))))) = 1
   \<and> multiplier (gameState (fst (tick 30 (fst (startGame 0 0 init_server))))) = 1.0045
   \<and> multiplier (gameState (fst (tick 30 (fst (startGame 0 0 init_server)))))
       \<noteq> crashPoint (gameState (fst (tick 30 (fst (startGame 0 0 init_server)))))
   \<and> snd (tick 30 (fst (startGame 0 0 init_server))) = [GAME_CRASHED 1 []]"
  by (simp add: tick_def crash_def startGame_def init_server_def init_gameState_def
        drawCrashPoint_def Let_def CONFIG_growthRate_def CONFIG_tickRate_def)

text \<open>
  C7 as amended. When a tick of a running round takes the multiplier to the crash target
  or beyond, the round crashes: the crash event and the new first history entry carry
  exactly the pre-drawn crash target, which stays as drawn, and the round is no longer
  running. The stored current multiplier is not set to the target: it keeps the value the
  last tick computed, which is at least the target. The GameServer does the same (its
  crash event is emitted unless the property access on a missing user throws).
\<close>

theorem C7_crash_carries_target:
  "(running (gameState s) \<and>
    crashPoint (gameState s)
      \<le> multiplier (gameState s)
          + multiplier (gameState s) * CONFIG_growthRate * (CONFIG_tickRate / 1000) \<longrightarrow>
      snd (tick now s) = [GAME_CRASHED (crashPoint (gameState s)) (map settle (activeBets s))] \<and>
      hd (history (gameState (fst (tick now s))))
        = \<lparr>he_crashPoint = crashPoint (gameState s), timestamp = now\<rparr> \<and>
      crashPoint (gameState (fst (tick now s))) = crashPoint (gameState s) \<and>
      crashed (gameState (fst (tick now s))) \<and> \<not> running (gameState (fst (tick now s))) \<and>
      multiplier (gameState (fst (tick now s)))
        = multiplier (gameState s)
          + multiplier (gameState s) * CONFIG_growthRate * (CONFIG_tickRate / 1000) \<and>
      crashPoint (gameState s) \<le> multiplier (gameState (fst (tick now s))))
   \<and> (gs_running (game t) \<and>
      gs_crashPoint (game t)
        \<le> gs_multiplier (game t) + gs_multiplier (game t) * 0.15 * (config_tickRate / 1000) \<longrightarrow>
      gs_crashPoint (game (fst (gs_gameLoop now t))) = gs_crashPoint (game t) \<and>
      gs_crashed (game (fst (gs_gameLoop now t))) \<and>
      \<not> gs_running (game (fst (gs_gameLoop now t))) \<and>
      gs_multiplier (game (fst (gs_gameLoop now t)))
        = gs_multiplier (game t) + gs_multiplier (game t) * 0.15 * (config_tickRate / 1000) \<and>
      (fst (snd (gs_gameLoop now t)) \<noteq> TypeError \<longrightarrow>
         GS_GAME_CRASHED (gs_crashPoint (game t)) \<in> set (snd (snd (gs_gameLoop now t))) \<and>
         mult (hd (gs_history (game (fst (gs_gameLoop now t))))) = gs_crashPoint (game t)))"
proof -
  have g: "\<And>m::real. m + m * CONFIG_growthRate * (CONFIG_tickRate / 1000) = m * 1.0045"
    by (rule growth_step)
  have g': "\<And>m::real. m + m * 0.15 * (config_tickRate / 1000) = m * 1.0045"
    by (simp add: config_tickRate_def)
  have A: "snd (tick now s) = [GAME_CRASHED (crashPoint (gameState s)) (map settle (activeBets s))] \<and>
      hd (history (gameState (fst (tick now s))))
        = \<lparr>he_crashPoint = crashPoint (gameState s), timestamp = now\<rparr> \<and>
      crashPoint (gameState (fst (tick now s))) = crashPoint (gameState s) \<and>
      crashed (gameState (fst (tick now s))) \<and> \<not> running (gameState (fst (tick now s))) \<and>
      multiplier (gameState (fst (tick now s))) = multiplier (gameState s) * 1.0045 \<and>
      crashPoint (gameState s) \<le> multiplier (gameState (fst (tick now s)))"
    if r: "running (gameState s)" and c: "crashPoint (gameState s) \<le> multiplier (gameState s) * 1.0045"
    using r c by (simp add: tick_running crash_fields hd_addToHistory)
  have B: "gs_crashPoint (game (fst (gs_gameLoop now t))) = gs_crashPoint (game t) \<and>
      gs_crashed (game (fst (gs_gameLoop now t))) \<and>
      \<not> gs_running (game (fst (gs_gameLoop now t))) \<and>
      gs_multiplier (game (fst (gs_gameLoop now t))) = gs_multiplier (game t) * 1.0045 \<and>
      (fst (snd (gs_gameLoop now t)) \<noteq> TypeError \<longrightarrow>
         GS_GAME_CRASHED (gs_crashPoint (game t)) \<in> set (snd (snd (gs_gameLoop now t))) \<and>
         mult (hd (gs_history (game (fst (gs_gameLoop now t))))) = gs_crashPoint (game t))"
    if r: "gs_running (game t)" and c: "gs_crashPoint (game t) \<le> gs_multiplier (game t) * 1.0045"
  proof -
    let ?t = "t\<lparr>game := (game t)\<lparr>gs_multiplier := gs_multiplier (game t) * 1.0045\<rparr>\<rparr>"
    have e: "gs_gameLoop now t = gs_crash ?t" using r c by (simp add: gs_gameLoop_running)
    show ?thesis
      using gs_crash_emits [of ?t] r c
      by (simp add: gs_gameLoop_game) (simp add: e)
  qed
  show ?thesis unfolding g g' using A B by blast
qed

theorem C7_crash_carries_target_witness:
  "running (gameState (fst (startGame 0 0 init_server)))
   \<and> crashPoint (gameState (fst (startGame 0 0 init_server))) = 1
   \<and> snd (tick 30 (fst (startGame 0 0 init_server)))
       = [GAME_CRASHED (crashPoint (gameState (fst (startGame 0 0 init_server))))
            (map settle (activeBets (fst (startGame 0 0 init_server))))]
   \<and> hd (history (gameState (fst (tick 30 (fst (startGame 0 0 init_server))))))
       = \<lparr>he_crashPoint = crashPoint (gameState (fst (startGame 0 0 init_server))), timestamp = 30\<rparr>
   \<and> gs_running (game (fst (gs_startGame 0 0 ''normal'' (gs_init None))))
   \<and> fst (snd (gs_gameLoop 30 (fst (gs_startGame 0 0 ''normal'' (gs_init None))))) = RetUndefined
   \<and> GS_GAME_CRASHED (gs_crashPoint (game (fst (gs_startGame 0 0 ''normal'' (gs_init None)))))
       \<in> set (snd (snd (gs_gameLoop 30 (fst (gs_startGame 0 0 ''normal'' (gs_init None))))))"
proof -
  let ?s = "fst (startGame 0 0 init_server)"
  let ?t = "fst (gs_startGame 0 0 ''normal'' (gs_init None))"
  note T = C7_crash_carries_target [where s = ?s and now = 30 and t = ?t]
  have s: "?s = \<lparr>gameState = \<lparr>running = True, multiplier = 1, crashPoint = 1, startTime = 0,
                     crashed = False, gameId = Some 0, history = []\<rparr>, activeBets = []\<rparr>"
    by (simp add: startGame_def init_server_def init_gameState_def drawCrashPoint_def Let_def)
  have t: "?t = \<lparr>user = None,
      game = \<lparr>gs_id = Some 0, gs_running = True, gs_multiplier = 1, gs_crashPoint = 1,
              gs_startTime = 0, gs_history = [], gs_crashed = False\<rparr>, bets = []\<rparr>"
    by (simp add: gs_startGame_def gs_init_def drawCrashPoint_def Let_def)
  have a: "running (gameState ?s) \<and>
      crashPoint (gameState ?s)
        \<le> multiplier (gameState ?s)
            + multiplier (gameState ?s) * CONFIG_growthRate * (CONFIG_tickRate / 1000)"
    unfolding s by (simp add: CONFIG_growthRate_def CONFIG_tickRate_def)
  have b: "gs_running (game ?t) \<and>
      gs_crashPoint (game ?t)
        \<le> gs_multiplier (game ?t) + gs_multiplier (game ?t) * 0.15 * (config_tickRate / 1000)"
    unfolding t by (simp add: config_tickRate_def)
  note Ta = T [THEN conjunct1, THEN mp, OF a]
  note Tb = T [THEN conjunct2, THEN mp, OF b]
  have c: "crashPoint (gameState ?s) = 1" unfolding s by simp
  have d: "fst (snd (gs_gameLoop 30 ?t)) = RetUndefined"
    unfolding t by (simp add: gs_gameLoop_def gs_crash_def gs_addToHistory_def Let_def config_tickRate_def)
  then have e: "fst (snd (gs_gameLoop 30 ?t)) \<noteq> TypeError" by simp
  from Tb e have f: "GS_GAME_CRASHED (gs_crashPoint (game ?t)) \<in> set (snd (snd (gs_gameLoop 30 ?t)))"
    by blast
  show ?thesis using a b c d f Ta by blast
qed

subsection \<open>Placing bets\<close>

lemma update_absent: "map_of al k = None \<Longrightarrow> AList.update k v al = al @ [(k, v)]"
  by (induction al) (auto split: if_splits)

lemma on_PLACE_BET_duplicate:
  "map_of (activeBets s) sid \<noteq> None \<Longrightarrow>
   fst (on_PLACE_BET sid amt uname s) = s \<and>
   (\<exists>msg. snd (on_PLACE_BET sid amt uname s) = [ERROR msg]) \<and>
   (running (gameState s) \<and> \<not> crashed (gameState s) \<longrightarrow>
      snd (on_PLACE_BET sid amt uname s) = [ERROR ''You already have an active bet''])"
  by (simp add: on_PLACE_BET_def)

lemma on_PLACE_BET_too_low:
  "amt < 10 \<Longrightarrow>
   fst (on_PLACE_BET sid amt uname s) = s \<and>
   (\<exists>msg. snd (on_PLACE_BET sid amt uname s) = [ERROR msg]) \<and>
   (running (gameState s) \<and> \<not> crashed (gameState s) \<and> map_of (activeBets s) sid = None \<longrightarrow>
      snd (on_PLACE_BET sid amt uname s) = [ERROR ''Minimum bet is 10''])"
  by (simp add: on_PLACE_BET_def)

lemma on_PLACE_BET_confirmed:
  "BET_CONFIRMED a \<in> set (snd (on_PLACE_BET sid amt uname s)) \<Longrightarrow>
   a = amt \<and> 10 \<le> amt \<and> running (gameState s) \<and> \<not> crashed (gameState s) \<and>
   map_of (activeBets s) sid = None \<and>
   gameState (fst (on_PLACE_BET sid amt uname s)) = gameState s \<and>
   activeBets (fst (on_PLACE_BET sid amt uname s))
     = activeBets s @ [(sid, \<lparr>amount = amt, cashedOut = False, profit = 0,
                              username = (if uname = [] then ''Player'' else uname)\<rparr>)]"
  by (auto simp: on_PLACE_BET_def update_absent split: if_splits)

lemma gs_placeBet_cases:
  "user t = Some u \<Longrightarrow>
   (balance u < amt \<longrightarrow> gs_placeBet amt t = (t, RetError ''Insufficient funds'', [])) \<and>
   (amt \<le> balance u \<and> amt < 10 \<longrightarrow> gs_placeBet amt t = (t, RetError ''Min bet 10'', [])) \<and>
   (10 \<le> amt \<and> amt \<le> balance u \<longrightarrow>
      gs_placeBet amt t =
        (t\<lparr>user := Some (u\<lparr>balance := balance u - amt\<rparr>),
           bets := AList.update (gs_id (game t))
                     \<lparr>gs_amount = amt, gs_cashedOut = False, gs_profit = 0\<rparr> (bets t)\<rparr>,
         RetSuccess, [USER_UPDATE (Some (u\<lparr>balance := balance u - amt\<rparr>)), BET_PLACED amt]))"
  by (simp add: gs_placeBet_def Let_def)

text \<open>
  C5, on the GameServer. \<^verbatim>\<open>placeBet\<close> has no check for an existing bet. After a login
  (balance 5000), the start of a round and a bet of 100, a second bet of 100 in the same
  round returns success, debits the balance again and overwrites the recorded bet: 200 are
  debited and one bet of 100 is in the ledger. The Socket.IO handler rejects the second
  bet (\<open>on_PLACE_BET_duplicate\<close>) and never holds two bets of one socket
  (\<open>distinct_run\<close>).
\<close>

theorem C5_gs_second_bet_accepted:
  "gs_placeBet 100 (gs_run None [Login ''bob'' 0, StartGame 0 (1 / 2) ''normal'', PlaceBet 100])
     = (\<lparr>user = Some \<lparr>u_username = ''bob'', balance = 4800, referralCode = 1000, totalProfit = 0\<rparr>,
         game = \<lparr>gs_id = Some 0, gs_running = True, gs_multiplier = 1, gs_crashPoint = 1.98,
                 gs_startTime = 0, gs_history = [], gs_crashed = False\<rparr>,
         bets = [(Some 0, \<lparr>gs_amount = 100, gs_cashedOut = False, gs_profit = 0\<rparr>)]\<rparr>,
        RetSuccess,
        [USER_UPDATE (Some \<lparr>u_username = ''bob'', balance = 4800, referralCode = 1000,
                            totalProfit = 0\<rparr>),
         BET_PLACED 100])
   \<and> user (gs_run None [Login ''bob'' 0, StartGame 0 (1 / 2) ''normal'', PlaceBet 100])
     = Some \<lparr>u_username = ''bob'', balance = 4900, referralCode = 1000, totalProfit = 0\<rparr>
   \<and> bets (gs_run None [Login ''bob'' 0, StartGame 0 (1 / 2) ''normal'', PlaceBet 100])
     = [(Some 0, \<lparr>gs_amount = 100, gs_cashedOut = False, gs_profit = 0\<rparr>)]"
  by (simp add: gs_run_def gs_run_from_def gs_init_def gs_login_def gs_startGame_def
        gs_placeBet_def drawCrashPoint_def Let_def)

text \<open>
  C6 as stated fails on the Socket.IO server, which keeps no balances: in a running
  round a bet of 1000000 is confirmed, and the only change of state is the new bet.
\<close>

theorem C6_counterexample:
  "on_PLACE_BET ''a'' 1000000 ''ann'' (fst (startGame 0 (1 / 2) init_server))
     = (\<lparr>gameState = gameState (fst (startGame 0 (1 / 2) init_server)),
         activeBets = [(''a'', \<lparr>amount = 1000000, cashedOut = False, profit = 0,
                                 username = ''ann''\<rparr>)]\<rparr>,
        [BET_CONFIRMED 1000000])
   \<and> activeBets (fst (startGame 0 (1 / 2) init_server)) = []"
  by (simp add: on_PLACE_BET_def startGame_def init_server_def init_gameState_def Let_def)

text \<open>
  C6 as amended. In the GameServer, with a user logged in, \<^verbatim>\<open>placeBet\<close> with a stake above
  the balance returns \<open>Insufficient funds\<close>, with a stake within the balance but below 10
  returns \<open>Min bet 10\<close>, and in both cases changes nothing; otherwise it debits the balance
  and records the bet in the one step, so that its result is either the unchanged state
  or a state with both the debit and the bet. The Socket.IO server keeps no balances:
  \<^verbatim>\<open>PLACE_BET\<close> with a stake below 10 is answered with an error and changes nothing (the
  error is \<open>Minimum bet is 10\<close> when the round is running and the socket has no bet), and
  a confirmed bet has a stake of at least 10 and only appends the bet to the ledger.
\<close>

theorem C6_place_bet_checks:
  "(user t = Some u \<longrightarrow>
      (balance u < amt \<longrightarrow> gs_placeBet amt t = (t, RetError ''Insufficient funds'', [])) \<and>
      (amt \<le> balance u \<and> amt < 10 \<longrightarrow> gs_placeBet amt t = (t, RetError ''Min bet 10'', [])) \<and>
      (10 \<le> amt \<and> amt \<le> balance u \<longrightarrow>
         gs_placeBet amt t =
           (t\<lparr>user := Some (u\<lparr>balance := balance u - amt\<rparr>),
              bets := AList.update (gs_id (game t))
                        \<lparr>gs_amount = amt, gs_cashedOut = False, gs_profit = 0\<rparr> (bets t)\<rparr>,
            RetSuccess, [USER_UPDATE (Some (u\<lparr>balance := balance u - amt\<rparr>)), BET_PLACED amt])))
   \<and> (fst (gs_placeBet amt t) = t \<or>
       (\<exists>u. user t = Some u \<and>
          user (fst (gs_placeBet amt t)) = Some (u\<lparr>balance := balance u - amt\<rparr>) \<and>
          map_of (bets (fst (gs_placeBet amt t))) (gs_id (game t))
            = Some \<lparr>gs_amount = amt, gs_cashedOut = False, gs_profit = 0\<rparr>))
   \<and> (amt < 10 \<longrightarrow>
        fst (on_PLACE_BET sid amt uname s) = s \<and>
        (\<exists>msg. snd (on_PLACE_BET sid amt uname s) = [ERROR msg]) \<and>
        (running (gameState s) \<and> \<not> crashed (gameState s) \<and> map_of (activeBets s) sid = None \<longrightarrow>
           snd (on_PLACE_BET sid amt uname s) = [ERROR ''Minimum bet is 10'']))
   \<and> (BET_CONFIRMED a \<in> set (snd (on_PLACE_BET sid amt uname s)) \<longrightarrow>
        a = amt \<and> 10 \<le> amt \<and>
        gameState (fst (on_PLACE_BET sid amt uname s)) = gameState s \<and>
        activeBets (fst (on_PLACE_BET sid amt uname s))
          = activeBets s @ [(sid, \<lparr>amount = amt, cashedOut = False, profit = 0,
                                   username = (if uname = [] then ''Player'' else uname)\<rparr>)])"
proof -
  have B: "fst (gs_placeBet amt t) = t \<or>
       (\<exists>u. user t = Some u \<and>
          user (fst (gs_placeBet amt t)) = Some (u\<lparr>balance := balance u - amt\<rparr>) \<and>
          map_of (bets (fst (gs_placeBet amt t))) (gs_id (game t))
            = Some \<lparr>gs_amount = amt, gs_cashedOut = False, gs_profit = 0\<rparr>)"
    by (cases "user t") (auto simp: gs_placeBet_def Let_def update_conv')
  show ?thesis
    using gs_placeBet_cases [of t u amt] B on_PLACE_BET_too_low [of amt sid uname s]
      on_PLACE_BET_confirmed [of a sid amt uname s]
    by blast
qed

theorem C6_place_bet_checks_witness:
  "gs_placeBet 6000 (gs_run None [Login ''bob'' 0, StartGame 0 (1 / 2) ''normal''])
     = (gs_run None [Login ''bob'' 0, StartGame 0 (1 / 2) ''normal''],
        RetError ''Insufficient funds'', [])
   \<and> gs_placeBet 5 (gs_run None [Login ''bob'' 0, StartGame 0 (1 / 2) ''normal''])
     = (gs_run None [Login ''bob'' 0, StartGame 0 (1 / 2) ''normal''], RetError ''Min bet 10'', [])
   \<and> fst (snd (gs_placeBet 100 (gs_run None [Login ''bob'' 0, StartGame 0 (1 / 2) ''normal''])))
     = RetSuccess
   \<and> user (fst (gs_placeBet 100 (gs_run None [Login ''bob'' 0, StartGame 0 (1 / 2) ''normal''])))
     = Some \<lparr>u_username = ''bob'', balance = 4900, referralCode = 1000, totalProfit = 0\<rparr>
   \<and> bets (fst (gs_placeBet 100 (gs_run None [Login ''bob'' 0, StartGame 0 (1 / 2) ''normal''])))
     = [(Some 0, \<lparr>gs_amount = 100, gs_cashedOut = False, gs_profit = 0\<rparr>)]
   \<and> on_PLACE_BET ''a'' 5 ''ann'' (fst (startGame 0 (1 / 2) init_server))
     = (fst (startGame 0 (1 / 2) init_server), [ERROR ''Minimum bet is 10''])
   \<and> snd (on_PLACE_BET ''a'' 100 ''ann'' (fst (startGame 0 (1 / 2) init_server)))
     = [BET_CONFIRMED 100]
   \<and> activeBets (fst (on_PLACE_BET ''a'' 100 ''ann'' (fst (startGame 0 (1 / 2) init_server))))
     = [(''a'', \<lparr>amount = 100, cashedOut = False, profit = 0, username = ''ann''\<rparr>)]"
proof -
  let ?t = "gs_run None [Login ''bob'' 0, StartGame 0 (1 / 2) ''normal'']"
  let ?u = "\<lparr>u_username = ''bob'', balance = 5000, referralCode = 1000, totalProfit = 0\<rparr>"
  let ?s = "fst (startGame 0 (1 / 2) init_server)"
  note T = C6_place_bet_checks [where t = ?t and u = ?u and s = ?s and sid = "''a''"
             and uname = "''ann''" and a = 100]
  have t: "?t = \<lparr>user = Some ?u,
      game = \<lparr>gs_id = Some 0, gs_running = True, gs_multiplier = 1, gs_crashPoint = 1.98,
              gs_startTime = 0, gs_history = [], gs_crashed = False\<rparr>, bets = []\<rparr>"
    by (simp add: gs_run_def gs_run_from_def gs_init_def gs_login_def gs_startGame_def
          drawCrashPoint_def Let_def)
  have s: "?s = \<lparr>gameState = \<lparr>running = True, multiplier = 1, crashPoint = 1.98, startTime = 0,
                     crashed = False, gameId = Some 0, history = []\<rparr>, activeBets = []\<rparr>"
    by (simp add: startGame_def init_server_def init_gameState_def drawCrashPoint_def Let_def)
  have u: "user ?t = Some ?u" unfolding t by simp
  note T1 = T [where amt = 6000] and T2 = T [where amt = 5] and T3 = T [where amt = 100]
  have a: "gs_placeBet 6000 ?t = (?t, RetError ''Insufficient funds'', [])"
    using T1 [THEN conjunct1, THEN mp, OF u] by simp
  have b: "gs_placeBet 5 ?t = (?t, RetError ''Min bet 10'', [])"
    using T2 [THEN conjunct1, THEN mp, OF u] by simp
  have c: "gs_placeBet 100 ?t =
      (?t\<lparr>user := Some (?u\<lparr>balance := balance ?u - 100\<rparr>),
          bets := AList.update (gs_id (game ?t))
                    \<lparr>gs_amount = 100, gs_cashedOut = False, gs_profit = 0\<rparr> (bets ?t)\<rparr>,
       RetSuccess, [USER_UPDATE (Some (?u\<lparr>balance := balance ?u - 100\<rparr>)), BET_PLACED 100])"
    using T3 [THEN conjunct1, THEN mp, OF u] by simp
  have c1: "fst (snd (gs_placeBet 100 ?t)) = RetSuccess" unfolding c by simp
  have c2: "user (fst (gs_placeBet 100 ?t))
      = Some \<lparr>u_username = ''bob'', balance = 4900, referralCode = 1000, totalProfit = 0\<rparr>"
    unfolding c by simp
  have c3: "bets (fst (gs_placeBet 100 ?t))
      = [(Some 0, \<lparr>gs_amount = 100, gs_cashedOut = False, gs_profit = 0\<rparr>)]"
    unfolding c by (simp add: t)
  have p: "running (gameState ?s) \<and> \<not> crashed (gameState ?s) \<and> map_of (activeBets ?s) ''a'' = None"
    unfolding s by simp
  have d: "on_PLACE_BET ''a'' 5 ''ann'' ?s = (?s, [ERROR ''Minimum bet is 10''])"
    using T2 [THEN conjunct2, THEN conjunct2, THEN conjunct1] p
    by (simp add: prod_eq_iff)
  have e: "snd (on_PLACE_BET ''a'' 100 ''ann'' ?s) = [BET_CONFIRMED 100]"
    unfolding s by (simp add: on_PLACE_BET_def)
  then have "BET_CONFIRMED 100 \<in> set (snd (on_PLACE_BET ''a'' 100 ''ann'' ?s))" by simp
  with T3 [THEN conjunct2, THEN conjunct2, THEN conjunct2]
  have f: "activeBets (fst (on_PLACE_BET ''a'' 100 ''ann'' ?s))
      = [(''a'', \<lparr>amount = 100, cashedOut = False, profit = 0, username = ''ann''\<rparr>)]"
    by (simp add: s)
  show ?thesis using a b c1 c2 c3 d e f by blast
qed

end
